theory Spec2Isabelle
  imports Complex_Main "HOL-Library.Word"
begin

section \<open>Data model\<close>

text \<open>
  The ledger of \<^verbatim>\<open>custom_sum\<close> is a pandas DataFrame with the columns
  \<^verbatim>\<open>Date, Vendor, Name, Quantity, Price, Category, Payment method\<close>. A frame is
  modelled as the list of its rows, a column as the list of one field over the rows.

  A pandas Timestamp is a calendar day and a time of day, here in nanoseconds since
  midnight; \<^verbatim>\<open>pd.to_datetime\<close> reads a plain date such as \<^verbatim>\<open>2024-05-11\<close> as midnight
  of that day. Timestamps are ordered chronologically, which on (year, month, day,
  time of day) is the lexicographic order, and \<^verbatim>\<open>==\<close> compares all four.
\<close>

record timestamp =
  year :: int
  month :: int
  day :: int
  time_ns :: int

definition ts_le :: "timestamp \<Rightarrow> timestamp \<Rightarrow> bool" where
  "ts_le a b =
     (year a < year b \<or>
      (year a = year b \<and>
       (month a < month b \<or>
        (month a = month b \<and> (day a < day b \<or> (day a = day b \<and> time_ns a \<le> time_ns b))))))"

text \<open>
  Calendar validity (Gregorian) and the range of the time of day: the values a
  Timestamp can hold.
\<close>

definition leap_year :: "int \<Rightarrow> bool" where
  "leap_year y = (y mod 4 = 0 \<and> (y mod 100 \<noteq> 0 \<or> y mod 400 = 0))"

definition days_in_month :: "int \<Rightarrow> int \<Rightarrow> int" where
  "days_in_month y m =
     (if m = 2 then (if leap_year y then 29 else 28)
      else if m = 4 \<or> m = 6 \<or> m = 9 \<or> m = 11 then 30
      else 31)"

definition valid_timestamp :: "timestamp \<Rightarrow> bool" where
  "valid_timestamp d =
     (1 \<le> month d \<and> month d \<le> 12 \<and> 1 \<le> day d \<and> day d \<le> days_in_month (year d) (month d)
      \<and> 0 \<le> time_ns d \<and> time_ns d < 86400000000000)"

text \<open>
  A cell of the \<^verbatim>\<open>Date\<close> column is text as \<^verbatim>\<open>pd.read_csv\<close> delivers it, or a
  Timestamp once \<^verbatim>\<open>pd.to_datetime\<close> has converted the column.
\<close>

datatype cell = DStr string | DTs timestamp

text \<open>
  The \<^verbatim>\<open>Price\<close> column has one dtype, the type parameter \<open>'p\<close> of a row: \<open>rat\<close> for
  a column of decimals (the specification's decimal prices; the rounding of a float64
  column is not modelled), \<open>64 word\<close> for an int64 column, read with \<open>sint\<close>, whose
  \<^verbatim>\<open>.sum()\<close> wraps around as numpy's does.
\<close>

record 'p expense =
  Date :: cell
  Vendor :: string
  Name :: string
  Quantity :: int
  Price :: 'p
  Category :: string
  Payment_method :: string

type_synonym 'p frame = "'p expense list"

text \<open>
  The values of a \<^verbatim>\<open>time_range\<close> dictionary, as the function-call schema types them:
  strings for the three dates, integers for month and year.
\<close>

datatype tval = TStr string | TInt int

type_synonym time_range = "string \<rightharpoonup> tval"

text \<open>
  The exceptions of the Python code. \<^verbatim>\<open>raise ValueError("Invalid time specification.")\<close>
  is the spec's InvalidTimeRange; a string that pandas cannot read as a date raises
  \<^verbatim>\<open>DateParseError\<close>.
\<close>

datatype error =
    ValueError string
  | DateParseError
  | TypeError
  | IndexError
  | KeyError string
  | AttributeError
  | JSONDecodeError

definition InvalidTimeRange :: error where
  "InvalidTimeRange = ValueError ''Invalid time specification.''"

section \<open>pandas operations used by the code\<close>

text \<open>
  \<^verbatim>\<open>pd.to_datetime\<close> is library code: its action on a scalar is the parameter
  \<open>to_datetime\<close> of the model (\<open>None\<close> when pandas raises). On a Series it converts
  every element and raises when one element fails; an element that is a Timestamp
  already is kept.
\<close>

fun to_datetime_cell :: "(tval \<Rightarrow> timestamp option) \<Rightarrow> cell \<Rightarrow> timestamp option" where
  "to_datetime_cell to_datetime (DStr s) = to_datetime (TStr s)"
| "to_datetime_cell to_datetime (DTs d) = Some d"

definition to_datetime_series :: "(tval \<Rightarrow> timestamp option) \<Rightarrow> cell list \<Rightarrow> timestamp list option" where
  "to_datetime_series to_datetime col = those (map (to_datetime_cell to_datetime) col)"

text \<open>\<^verbatim>\<open>expenses_df['Date'] = series\<close>: column assignment, row by row.\<close>

definition assign_Date :: "'p frame \<Rightarrow> timestamp list \<Rightarrow> 'p frame" where
  "assign_Date df ds = map2 (\<lambda>r d. r\<lparr>Date := DTs d\<rparr>) df ds"

text \<open>\<^verbatim>\<open>mask1 & mask2\<close> on boolean Series, and \<^verbatim>\<open>df[mask]\<close>.\<close>

definition mask_and :: "bool list \<Rightarrow> bool list \<Rightarrow> bool list" where
  "mask_and m1 m2 = map2 (\<and>) m1 m2"

definition boolean_index :: "'p frame \<Rightarrow> bool list \<Rightarrow> 'p frame" where
  "boolean_index df bmask = map fst (filter snd (zip df bmask))"

section \<open>custom\_sum\<close>

text \<open>
  The \<^verbatim>\<open>if/elif\<close> chain of \<^verbatim>\<open>custom_sum\<close>, which builds \<^verbatim>\<open>filtered_df\<close>.
  \<open>dates\<close> is the Series \<^verbatim>\<open>expenses_df['Date']\<close> that the first statement of the
  function has just assigned (see \<open>col_Date_assign\<close> below). A month or year that
  is not an integer compares unequal to every \<^verbatim>\<open>.dt.month\<close>/\<^verbatim>\<open>.dt.year\<close>.
\<close>

definition filtered_df ::
  "(tval \<Rightarrow> timestamp option) \<Rightarrow> time_range \<Rightarrow> timestamp list \<Rightarrow> 'p frame
     \<Rightarrow> error + 'p frame" where
  "filtered_df to_datetime time_range dates df =
     (case time_range ''specific_date'' of
        Some v \<Rightarrow>
          (case to_datetime v of
             None \<Rightarrow> Inl DateParseError
           | Some specific_date \<Rightarrow>
               Inr (boolean_index df (map (\<lambda>d. d = specific_date) dates)))
      | None \<Rightarrow>
          (case (time_range ''start_date'', time_range ''end_date'') of
             (Some s, Some e) \<Rightarrow>
               (case to_datetime s of
                  None \<Rightarrow> Inl DateParseError
                | Some start_date \<Rightarrow>
                    (case to_datetime e of
                       None \<Rightarrow> Inl DateParseError
                     | Some end_date \<Rightarrow>
                         Inr (boolean_index df
                                (mask_and (map (\<lambda>d. ts_le start_date d) dates)
                                          (map (\<lambda>d. ts_le d end_date) dates)))))
           | _ \<Rightarrow>
               (case (time_range ''month'', time_range ''year'') of
                  (Some m, Some y) \<Rightarrow>
                    Inr (boolean_index df
                           (mask_and (map (\<lambda>d. TInt (month d) = m) dates)
                                     (map (\<lambda>d. TInt (year d) = y) dates)))
                | _ \<Rightarrow>
                    (case time_range ''year'' of
                       Some y \<Rightarrow>
                         Inr (boolean_index df (map (\<lambda>d. TInt (year d) = y) dates))
                     | None \<Rightarrow> Inl InvalidTimeRange))))"

text \<open>
  \<^verbatim>\<open>custom_sum(time_range, expenses_df)\<close>. The DataFrame is passed by reference and
  the first statement assigns to its \<^verbatim>\<open>Date\<close> column, so the model returns the frame
  as the call leaves it, next to the returned sum or the raised exception. When the
  conversion itself raises, the assignment has not happened.
\<close>

definition custom_sum ::
  "(tval \<Rightarrow> timestamp option) \<Rightarrow> time_range \<Rightarrow> ('p::monoid_add) frame
     \<Rightarrow> 'p frame \<times> (error + 'p)" where
  "custom_sum to_datetime time_range expenses_df =
     (case to_datetime_series to_datetime (map Date expenses_df) of
        None \<Rightarrow> (expenses_df, Inl DateParseError)
      | Some dates \<Rightarrow>
          (let df = assign_Date expenses_df dates in
           (df, case filtered_df to_datetime time_range dates df of
                  Inl e \<Rightarrow> Inl e
                | Inr fdf \<Rightarrow> Inr (sum_list (map Price fdf)))))"

section \<open>get\_sum\<close>

text \<open>
  The reply of \<^verbatim>\<open>client.chat.completions.create\<close>, as far as \<^verbatim>\<open>get_sum\<close> reads it:
  \<^verbatim>\<open>response.choices[i].message\<close> with its \<^verbatim>\<open>content\<close> and \<^verbatim>\<open>tool_calls\<close>, and of a
  tool call \<^verbatim>\<open>function.name\<close> and \<^verbatim>\<open>function.arguments\<close>. The remote call is the
  nondeterministic collaborator, so its reply is an argument of the model.
\<close>

record tool_call =
  function_name :: string
  function_arguments :: string

record message =
  content :: "string option"
  tool_calls :: "tool_call list option"

record response =
  choices :: "message list"

text \<open>
  \<^verbatim>\<open>response.choices[0].message.tool_calls[0]\<close>: an attribute of \<^verbatim>\<open>None\<close>, an index
  into an empty list and a subscript of \<^verbatim>\<open>None\<close> raise.
\<close>

definition first_tool_call :: "response option \<Rightarrow> error + tool_call" where
  "first_tool_call resp =
     (case resp of
        None \<Rightarrow> Inl AttributeError
      | Some r \<Rightarrow>
          (case choices r of
             [] \<Rightarrow> Inl IndexError
           | c # _ \<Rightarrow>
               (case tool_calls c of
                  None \<Rightarrow> Inl TypeError
                | Some [] \<Rightarrow> Inl IndexError
                | Some (t # _) \<Rightarrow> Inr t)))"

text \<open>An f-string renders a missing \<^verbatim>\<open>content\<close> as \<^verbatim>\<open>None\<close>.\<close>

definition fmt_content :: "string option \<Rightarrow> string" where
  "fmt_content c = (case c of None \<Rightarrow> ''None'' | Some s \<Rightarrow> s)"

definition warning_line :: "string option \<Rightarrow> string" where
  "warning_line c = [CHR 0x0A] @ ''WARNING:'' @ [CHR 0x0A] @ fmt_content c"

text \<open>
  \<^verbatim>\<open>get_sum(message, expenses_df)\<close>, after the remote call has returned \<open>resp\<close>.
  \<^verbatim>\<open>json.loads\<close> is library code and a parameter (function-call arguments are a JSON
  object, read as a \<^verbatim>\<open>time_range\<close>). The result is what was printed, the frame as the
  call leaves it, and the value returned (\<open>None\<close> for a bare \<^verbatim>\<open>return\<close>) or the
  exception raised. The first \<^verbatim>\<open>print\<close> stands before every test of the reply.
\<close>

definition get_sum ::
  "(string \<Rightarrow> error + time_range) \<Rightarrow> (tval \<Rightarrow> timestamp option) \<Rightarrow> response option
     \<Rightarrow> ('p::monoid_add) frame \<Rightarrow> string list \<times> 'p frame \<times> (error + 'p option)" where
  "get_sum json_loads to_datetime resp expenses_df =
     (case first_tool_call resp of
        Inl e \<Rightarrow> ([], expenses_df, Inl e)
      | Inr t \<Rightarrow>
          (let out = [''time_range: '' @ function_arguments t] in
           (case resp of
              None \<Rightarrow> (out @ [''No response received from GPT-4o.''], expenses_df, Inr None)
            | Some r \<Rightarrow>
                (case choices r of
                   [] \<Rightarrow> (out, expenses_df, Inl IndexError)
                 | c # _ \<Rightarrow>
                     (case tool_calls c of
                        Some (t0 # _) \<Rightarrow>
                          (if function_name t0 = ''custom_sum'' then
                             (case json_loads (function_arguments t0) of
                                Inl e \<Rightarrow> (out, expenses_df, Inl e)
                              | Inr time_range \<Rightarrow>
                                  (case custom_sum to_datetime time_range expenses_df of
                                     (df, Inl e) \<Rightarrow> (out, df, Inl e)
                                   | (df, Inr requested_sum) \<Rightarrow> (out, df, Inr (Some requested_sum))))
                           else (out @ [warning_line (content c)], expenses_df, Inr None))
                      | _ \<Rightarrow> (out @ [warning_line (content c)], expenses_df, Inr None))))))"

section \<open>Appending a receipt to the ledger\<close>

text \<open>
  The notebook cell that turns \<^verbatim>\<open>receipt_data\<close> (the \<^verbatim>\<open>json.loads\<close> of the tool
  call's arguments) into rows. JSON values as Python holds them:
\<close>

datatype json =
    JNull
  | JBool bool
  | JInt int
  | JFloat rat
  | JStr string
  | JArr "json list"
  | JObj "(string \<times> json) list"

type_synonym row = "(string \<times> json) list"

text \<open>\<^verbatim>\<open>d[k]\<close> with a string key: only a dict has one.\<close>

definition subscript :: "json \<Rightarrow> string \<Rightarrow> error + json" where
  "subscript d k =
     (case d of
        JObj kvs \<Rightarrow> (case map_of kvs k of None \<Rightarrow> Inl (KeyError k) | Some v \<Rightarrow> Inr v)
      | _ \<Rightarrow> Inl TypeError)"

text \<open>\<^verbatim>\<open>d.get(k, default)\<close>: only a dict has the method.\<close>

definition dict_get :: "json \<Rightarrow> string \<Rightarrow> json \<Rightarrow> error + json" where
  "dict_get d k dflt =
     (case d of
        JObj kvs \<Rightarrow> (case map_of kvs k of None \<Rightarrow> Inr dflt | Some v \<Rightarrow> Inr v)
      | _ \<Rightarrow> Inl AttributeError)"

text \<open>
  \<^verbatim>\<open>for item in v\<close>: a list yields its elements, a string its characters, a dict its
  keys; nothing else is iterable.
\<close>

definition py_iter :: "json \<Rightarrow> error + json list" where
  "py_iter v =
     (case v of
        JArr xs \<Rightarrow> Inr xs
      | JStr s \<Rightarrow> Inr (map (\<lambda>c. JStr [c]) s)
      | JObj kvs \<Rightarrow> Inr (map (\<lambda>kv. JStr (fst kv)) kvs)
      | _ \<Rightarrow> Inl TypeError)"

definition bind_sum :: "error + 'a \<Rightarrow> ('a \<Rightarrow> error + 'b) \<Rightarrow> error + 'b" where
  "bind_sum x f = (case x of Inl e \<Rightarrow> Inl e | Inr v \<Rightarrow> f v)"

text \<open>
  The body of the loop: the \<^verbatim>\<open>print\<close> reads \<^verbatim>\<open>item['name']\<close> (what it prints is
  not modelled), then the row is built with \<^verbatim>\<open>.get\<close> and its defaults, the dict's
  entries evaluated in the order written. \<open>today\<close> is \<^verbatim>\<open>date.today().isoformat()\<close>.
\<close>

definition new_row :: "string \<Rightarrow> json \<Rightarrow> json \<Rightarrow> error + row" where
  "new_row today receipt_data item =
     bind_sum (subscript item ''name'') (\<lambda>_.
     bind_sum (dict_get receipt_data ''date'' (JStr today)) (\<lambda>v_date.
     bind_sum (dict_get receipt_data ''vendor'' (JStr '''')) (\<lambda>v_vendor.
     bind_sum (dict_get item ''name'' (JStr '''')) (\<lambda>v_name.
     bind_sum (dict_get item ''quantity'' (JInt 1)) (\<lambda>v_quantity.
     bind_sum (dict_get item ''price'' (JInt 0)) (\<lambda>v_price.
     bind_sum (dict_get item ''category'' (JStr ''Uncategorized'')) (\<lambda>v_category.
     bind_sum (dict_get receipt_data ''payment_method'' (JStr ''Unknown'')) (\<lambda>v_payment.
       Inr [(''Date'', v_date), (''Vendor'', v_vendor), (''Name'', v_name),
            (''Quantity'', v_quantity), (''Price'', v_price), (''Category'', v_category),
            (''Payment method'', v_payment)]))))))))"

fun new_rows_loop :: "string \<Rightarrow> json \<Rightarrow> json list \<Rightarrow> row list \<Rightarrow> error + row list" where
  "new_rows_loop today receipt_data [] new_rows = Inr new_rows"
| "new_rows_loop today receipt_data (item # items) new_rows =
     (case new_row today receipt_data item of
        Inl e \<Rightarrow> Inl e
      | Inr r \<Rightarrow> new_rows_loop today receipt_data items (new_rows @ [r]))"

text \<open>
  The whole cell: the loop over \<^verbatim>\<open>receipt_data['items']\<close>, then the new rows replace
  an empty \<^verbatim>\<open>expenses_df\<close> or are concatenated to it.
\<close>

definition append_receipt :: "string \<Rightarrow> json \<Rightarrow> row list \<Rightarrow> error + row list" where
  "append_receipt today receipt_data expenses_df =
     bind_sum (subscript receipt_data ''items'') (\<lambda>v_items.
     bind_sum (py_iter v_items) (\<lambda>items.
     bind_sum (new_rows_loop today receipt_data items []) (\<lambda>new_rows.
       Inr (if expenses_df = [] then new_rows else expenses_df @ new_rows))))"

text \<open>The enums of the \<^verbatim>\<open>itemize_receipt\<close> schema.\<close>

definition category_enum :: "string list" where
  "category_enum =
     [''take-out'', ''meal'', ''groceries'', ''clothing'', ''electronics'', ''supplies'', ''other'']"

definition payment_method_enum :: "string list" where
  "payment_method_enum = [''cash'', ''credit'', ''debit'', ''mobile'', ''other'']"

section \<open>The filter policy in the specification's words\<close>

text \<open>
  The specification's TimeRangeSpec and its filter policy, record by record; the
  theorems below compare it with the masks that the code computes column by column.
\<close>

datatype TimeRangeSpec =
    SpecificDate timestamp
  | DateRange timestamp timestamp
  | MonthYear int int
  | Year int

fun spec_matches :: "TimeRangeSpec \<Rightarrow> timestamp \<Rightarrow> bool" where
  "spec_matches (SpecificDate d) x = (x = d)"
| "spec_matches (DateRange s e) x = (ts_le s x \<and> ts_le x e)"
| "spec_matches (MonthYear m y) x = (month x = m \<and> year x = y)"
| "spec_matches (Year y) x = (year x = y)"

fun cell_matches :: "TimeRangeSpec \<Rightarrow> cell \<Rightarrow> bool" where
  "cell_matches sp (DTs d) = spec_matches sp d"
| "cell_matches sp (DStr s) = False"

definition spec_aggregate :: "TimeRangeSpec \<Rightarrow> ('p::monoid_add) frame \<Rightarrow> 'p" where
  "spec_aggregate sp df = sum_list (map Price (filter (\<lambda>r. cell_matches sp (Date r)) df))"

text \<open>
  A time\_range populates a recognized key combination when one of the four tests of
  the chain succeeds.
\<close>

definition recognized :: "time_range \<Rightarrow> bool" where
  "recognized tr =
     (tr ''specific_date'' \<noteq> None \<or>
      (tr ''start_date'' \<noteq> None \<and> tr ''end_date'' \<noteq> None) \<or>
      (tr ''month'' \<noteq> None \<and> tr ''year'' \<noteq> None) \<or>
      tr ''year'' \<noteq> None)"

text \<open>
  The filter policy for every time\_range, record by record: which Timestamps the
  Aggregator keeps, or the failure. A month or year that is not an integer equals no
  date's month or year.
\<close>

definition spec_selection ::
  "(tval \<Rightarrow> timestamp option) \<Rightarrow> time_range \<Rightarrow> error + (timestamp \<Rightarrow> bool)" where
  "spec_selection td tr =
     (case tr ''specific_date'' of
        Some v \<Rightarrow>
          (case td v of None \<Rightarrow> Inl DateParseError | Some d \<Rightarrow> Inr (\<lambda>x. x = d))
      | None \<Rightarrow>
          (case (tr ''start_date'', tr ''end_date'') of
             (Some s, Some e) \<Rightarrow>
               (case td s of
                  None \<Rightarrow> Inl DateParseError
                | Some a \<Rightarrow>
                    (case td e of
                       None \<Rightarrow> Inl DateParseError
                     | Some b \<Rightarrow> Inr (\<lambda>x. ts_le a x \<and> ts_le x b)))
           | _ \<Rightarrow>
               (case (tr ''month'', tr ''year'') of
                  (Some m, Some y) \<Rightarrow> Inr (\<lambda>x. TInt (month x) = m \<and> TInt (year x) = y)
                | _ \<Rightarrow>
                    (case tr ''year'' of
                       Some y \<Rightarrow> Inr (\<lambda>x. TInt (year x) = y)
                     | None \<Rightarrow> Inl InvalidTimeRange))))"

fun cell_keeps :: "(timestamp \<Rightarrow> bool) \<Rightarrow> cell \<Rightarrow> bool" where
  "cell_keeps keep (DTs d) = keep d"
| "cell_keeps keep (DStr s) = False"

definition kept_records :: "(timestamp \<Rightarrow> bool) \<Rightarrow> 'p frame \<Rightarrow> 'p frame" where
  "kept_records keep df = filter (\<lambda>r. cell_keeps keep (Date r)) df"

text \<open>
  A time\_range is valid when the branch that the chain selects can be evaluated: the
  dates of that branch are readable. (Month and year are compared as they are.)
\<close>

definition valid_time_range :: "(tval \<Rightarrow> timestamp option) \<Rightarrow> time_range \<Rightarrow> bool" where
  "valid_time_range td tr =
     (case tr ''specific_date'' of
        Some v \<Rightarrow> td v \<noteq> None
      | None \<Rightarrow>
          (case (tr ''start_date'', tr ''end_date'') of
             (Some s, Some e) \<Rightarrow> td s \<noteq> None \<and> td e \<noteq> None
           | _ \<Rightarrow> tr ''year'' \<noteq> None))"

section \<open>A reader of ISO dates\<close>

text \<open>
  For evaluating the model on concrete ledgers, an instance of \<open>to_datetime\<close>: it reads
  \<^verbatim>\<open>YYYY-MM-DD\<close> as midnight of that day and \<^verbatim>\<open>YYYY-MM-DD HH:MM:SS\<close> as that time
  of that day, as pandas does, and rejects every other value.
\<close>

definition digit :: "char \<Rightarrow> int option" where
  "digit c = (let n = of_char c in if 48 \<le> n \<and> n \<le> 57 then Some (n - 48) else None)"

fun number :: "string \<Rightarrow> int \<Rightarrow> int option" where
  "number [] acc = Some acc"
| "number (c # cs) acc = (case digit c of None \<Rightarrow> None | Some v \<Rightarrow> number cs (10 * acc + v))"

definition iso_fields :: "string \<Rightarrow> string \<Rightarrow> string \<Rightarrow> int \<Rightarrow> timestamp option" where
  "iso_fields ys ms ds t =
     (case (number ys 0, number ms 0, number ds 0) of
        (Some y, Some m, Some d) \<Rightarrow>
          (let dt = \<lparr>year = y, month = m, day = d, time_ns = t\<rparr> in
           if valid_timestamp dt then Some dt else None)
      | _ \<Rightarrow> None)"

definition iso_clock :: "string \<Rightarrow> int option" where
  "iso_clock s =
     (if length s = 8 \<and> s ! 2 = CHR '':'' \<and> s ! 5 = CHR '':''
      then (case (number (take 2 s) 0, number (take 2 (drop 3 s)) 0, number (take 2 (drop 6 s)) 0) of
              (Some h, Some mi, Some sec) \<Rightarrow>
                (if h < 24 \<and> mi < 60 \<and> sec < 60
                 then Some (((h * 60 + mi) * 60 + sec) * 1000000000) else None)
            | _ \<Rightarrow> None)
      else None)"

definition iso_date :: "string \<Rightarrow> timestamp option" where
  "iso_date s =
     (if length s = 10 \<and> s ! 4 = CHR ''-'' \<and> s ! 7 = CHR ''-''
      then iso_fields (take 4 s) (take 2 (drop 5 s)) (take 2 (drop 8 s)) 0
      else if length s = 19 \<and> s ! 4 = CHR ''-'' \<and> s ! 7 = CHR ''-'' \<and> s ! 10 = CHR '' ''
      then (case iso_clock (drop 11 s) of
              None \<Rightarrow> None
            | Some t \<Rightarrow> iso_fields (take 4 s) (take 2 (drop 5 s)) (take 2 (drop 8 s)) t)
      else None)"

fun iso_to_datetime :: "tval \<Rightarrow> timestamp option" where
  "iso_to_datetime (TStr s) = iso_date s"
| "iso_to_datetime (TInt n) = None"

section \<open>Sample data\<close>

text \<open>
  The scenario of the specification: two purchases, of 49.90 on 2024-05-11 and of 22.73
  on 2024-05-16, as \<^verbatim>\<open>pd.read_csv\<close> delivers them (dates as text).
\<close>

definition scenario_ledger :: "rat frame" where
  "scenario_ledger =
     [\<lparr>Date = DStr ''2024-05-11'', Vendor = ''Uniqlo Metrotown'', Name = ''full-zip hoodie'',
       Quantity = 1, Price = 49.90, Category = ''clothing'', Payment_method = ''credit''\<rparr>,
      \<lparr>Date = DStr ''2024-05-16'', Vendor = ''Corner Deli'', Name = ''sandwich'',
       Quantity = 3, Price = 22.73, Category = ''meal'', Payment_method = ''cash''\<rparr>]"

definition scenario_dates :: "timestamp list" where
  "scenario_dates =
     [\<lparr>year = 2024, month = 5, day = 11, time_ns = 0\<rparr>, \<lparr>year = 2024, month = 5, day = 16, time_ns = 0\<rparr>]"

text \<open>
  A ledger with one purchase on the last day of 2024 at ten in the morning, and a ledger
  whose \<^verbatim>\<open>Price\<close> column is int64 and holds \<open>2\<^sup>6\<^sup>2\<close> twice.
\<close>

definition year_end_ledger :: "rat frame" where
  "year_end_ledger =
     [\<lparr>Date = DStr ''2024-12-31 10:00:00'', Vendor = ''Corner Deli'', Name = ''sandwich'',
       Quantity = 1, Price = 5, Category = ''meal'', Payment_method = ''cash''\<rparr>]"

definition int64_ledger :: "64 word frame" where
  "int64_ledger =
     [\<lparr>Date = DStr ''2024-05-11'', Vendor = ''Uniqlo Metrotown'', Name = ''full-zip hoodie'',
       Quantity = 1, Price = 4611686018427387904, Category = ''clothing'',
       Payment_method = ''credit''\<rparr>,
      \<lparr>Date = DStr ''2024-05-16'', Vendor = ''Corner Deli'', Name = ''sandwich'',
       Quantity = 3, Price = 4611686018427387904, Category = ''meal'',
       Payment_method = ''cash''\<rparr>]"

definition small_int64_ledger :: "64 word frame" where
  "small_int64_ledger =
     [\<lparr>Date = DStr ''2024-05-11'', Vendor = ''Uniqlo Metrotown'', Name = ''full-zip hoodie'',
       Quantity = 1, Price = 50, Category = ''clothing'', Payment_method = ''credit''\<rparr>,
      \<lparr>Date = DStr ''2024-05-16'', Vendor = ''Corner Deli'', Name = ''sandwich'',
       Quantity = 3, Price = 23, Category = ''meal'', Payment_method = ''cash''\<rparr>]"

text \<open>
  A reply that invokes \<^verbatim>\<open>custom_sum\<close> with the arguments the tutorial prints, one that
  invokes \<^verbatim>\<open>itemize_receipt\<close>, and a \<^verbatim>\<open>json.loads\<close> that reads the former's arguments.
\<close>

definition range_arguments :: string where
  \<open>range_arguments = ''{"start_date":"2024-05-11","end_date":"2024-05-16"}''\<close>

definition sum_reply :: response where
  "sum_reply =
     \<lparr>choices = [\<lparr>content = None,
                   tool_calls = Some [\<lparr>function_name = ''custom_sum'',
                                       function_arguments = range_arguments\<rparr>]\<rparr>]\<rparr>"

definition receipt_arguments :: string where
  \<open>receipt_arguments = ''{"vendor":"Corner Deli","date":"2024-05-16","items":[],"payment_method":"cash"}''\<close>

definition receipt_reply :: response where
  "receipt_reply =
     \<lparr>choices = [\<lparr>content = None,
                   tool_calls = Some [\<lparr>function_name = ''itemize_receipt'',
                                       function_arguments = receipt_arguments\<rparr>]\<rparr>]\<rparr>"

definition text_reply :: response where
  "text_reply = \<lparr>choices = [\<lparr>content = Some ''Please upload a receipt.'', tool_calls = None\<rparr>]\<rparr>"

definition sample_json_loads :: "string \<Rightarrow> error + time_range" where
  "sample_json_loads s =
     (if s = range_arguments
      then Inr [''start_date'' \<mapsto> TStr ''2024-05-11'', ''end_date'' \<mapsto> TStr ''2024-05-16'']
      else Inl JSONDecodeError)"

section \<open>Basic facts\<close>

lemmas iso_defs =
  iso_date_def iso_fields_def digit_def valid_timestamp_def days_in_month_def leap_year_def

lemma those_length: "those xs = Some ys \<Longrightarrow> length ys = length xs"
  by (induction xs arbitrary: ys) (auto split: option.splits)

lemma to_datetime_series_length:
  "to_datetime_series td col = Some ds \<Longrightarrow> length ds = length col"
  unfolding to_datetime_series_def by (drule those_length) simp

lemma col_Date_assign:
  "length ds = length df \<Longrightarrow> map Date (assign_Date df ds) = map DTs ds"
  unfolding assign_Date_def by (induction ds df rule: list_induct2) auto

lemma mask_and_map: "mask_and (map P ds) (map Q ds) = map (\<lambda>d. P d \<and> Q d) ds"
  unfolding mask_and_def by (induction ds) auto

lemma boolean_index_assign:
  "length ds = length df \<Longrightarrow>
   boolean_index (assign_Date df ds) (map (spec_matches sp) ds) =
   filter (\<lambda>r. cell_matches sp (Date r)) (assign_Date df ds)"
  unfolding boolean_index_def assign_Date_def
  by (induction ds df rule: list_induct2) auto

lemma custom_sum_converted:
  "to_datetime_series td (map Date df) = Some ds \<Longrightarrow>
   custom_sum td tr df =
     (assign_Date df ds,
      case filtered_df td tr ds (assign_Date df ds) of
        Inl e \<Rightarrow> Inl e | Inr fdf \<Rightarrow> Inr (sum_list (map Price fdf)))"
  by (simp add: custom_sum_def Let_def)

lemma scenario_converts:
  "to_datetime_series iso_to_datetime (map Date scenario_ledger) = Some scenario_dates"
  by (simp add: to_datetime_series_def scenario_ledger_def scenario_dates_def iso_defs)

lemma scenario_year_2024:
  "custom_sum iso_to_datetime [''year'' \<mapsto> TInt 2024] scenario_ledger =
     (assign_Date scenario_ledger scenario_dates, Inr 72.63)"
  by (simp add: custom_sum_converted [OF scenario_converts] filtered_df_def boolean_index_def)
     (simp add: assign_Date_def scenario_ledger_def scenario_dates_def)

lemma mask_SpecificDate: "map (\<lambda>x. x = d) ds = map (spec_matches (SpecificDate d)) ds"
  by simp

lemma mask_DateRange:
  "mask_and (map (\<lambda>x. ts_le a x) ds) (map (\<lambda>x. ts_le x b) ds) =
   map (spec_matches (DateRange a b)) ds"
  by (simp add: mask_and_map)

lemma mask_MonthYear:
  "mask_and (map (\<lambda>x. month x = m) ds) (map (\<lambda>x. year x = y) ds) =
   map (spec_matches (MonthYear m y)) ds"
  by (simp add: mask_and_map)

lemma mask_Year: "map (\<lambda>x. year x = y) ds = map (spec_matches (Year y)) ds"
  by simp

lemma filtered_df_SpecificDate:
  assumes "tr ''specific_date'' = Some v" "td v = Some d" "length ds = length df"
  shows "filtered_df td tr ds (assign_Date df ds) =
         Inr (filter (\<lambda>r. cell_matches (SpecificDate d) (Date r)) (assign_Date df ds))"
  using assms
  by (simp add: filtered_df_def mask_SpecificDate boolean_index_assign del: spec_matches.simps)

lemma filtered_df_DateRange:
  assumes "tr ''specific_date'' = None" "tr ''start_date'' = Some s" "tr ''end_date'' = Some e"
    "td s = Some a" "td e = Some b" "length ds = length df"
  shows "filtered_df td tr ds (assign_Date df ds) =
         Inr (filter (\<lambda>r. cell_matches (DateRange a b) (Date r)) (assign_Date df ds))"
  using assms
  by (simp add: filtered_df_def mask_DateRange boolean_index_assign del: spec_matches.simps)

lemma filtered_df_MonthYear:
  assumes "tr ''specific_date'' = None" "tr ''start_date'' = None \<or> tr ''end_date'' = None"
    "tr ''month'' = Some (TInt m)" "tr ''year'' = Some (TInt y)" "length ds = length df"
  shows "filtered_df td tr ds (assign_Date df ds) =
         Inr (filter (\<lambda>r. cell_matches (MonthYear m y) (Date r)) (assign_Date df ds))"
  using assms
  by (auto simp add: filtered_df_def mask_MonthYear boolean_index_assign
      simp del: spec_matches.simps split: option.splits)

lemma filtered_df_Year:
  assumes "tr ''specific_date'' = None" "tr ''start_date'' = None \<or> tr ''end_date'' = None"
    "tr ''month'' = None" "tr ''year'' = Some (TInt y)" "length ds = length df"
  shows "filtered_df td tr ds (assign_Date df ds) =
         Inr (filter (\<lambda>r. cell_matches (Year y) (Date r)) (assign_Date df ds))"
  using assms
  by (auto simp add: filtered_df_def mask_Year boolean_index_assign
      simp del: spec_matches.simps split: option.splits)

lemma filtered_df_selection:
  "filtered_df td tr ds df =
     (case spec_selection td tr of
        Inl e \<Rightarrow> Inl e
      | Inr keep \<Rightarrow> Inr (boolean_index df (map keep ds)))"
  by (simp add: filtered_df_def spec_selection_def mask_and_map split: option.splits)

lemma boolean_index_keeps:
  "length ds = length df \<Longrightarrow>
   boolean_index (assign_Date df ds) (map keep ds) = kept_records keep (assign_Date df ds)"
  unfolding boolean_index_def assign_Date_def kept_records_def
  by (induction ds df rule: list_induct2) auto

lemma custom_sum_selection:
  assumes "to_datetime_series td (map Date df) = Some ds"
  shows "snd (custom_sum td tr df) =
           (case spec_selection td tr of
              Inl e \<Rightarrow> Inl e
            | Inr keep \<Rightarrow> Inr (sum_list (map Price (kept_records keep (assign_Date df ds)))))"
proof -
  have l: "length ds = length df" using to_datetime_series_length [OF assms] by simp
  show ?thesis
    by (simp add: custom_sum_converted [OF assms] filtered_df_selection boolean_index_keeps [OF l]
        split: sum.splits)
qed

lemma Price_boolean_index:
  "map Price (boolean_index df bm) = map fst (filter snd (zip (map Price df) bm))"
  unfolding boolean_index_def
proof (induction df arbitrary: bm)
  case Nil
  then show ?case by simp
next
  case (Cons r df)
  then show ?case by (cases bm) auto
qed

lemma Price_assign_Date:
  "length ds = length df \<Longrightarrow> map Price (assign_Date df ds) = map Price df"
  unfolding assign_Date_def by (induction ds df rule: list_induct2) auto

lemma Date_Quantity_update: "map Date (map (\<lambda>r. r\<lparr>Quantity := q r\<rparr>) df) = map Date df"
  by simp

lemma Price_Quantity_update: "map Price (map (\<lambda>r. r\<lparr>Quantity := q r\<rparr>) df) = map Price df"
  by simp

lemma custom_sum_by_prices:
  assumes "map Date df1 = map Date df2" "map Price df1 = map Price df2"
  shows "snd (custom_sum td tr df1) = snd (custom_sum td tr df2)"
proof (cases "to_datetime_series td (map Date df2)")
  case None
  then show ?thesis using assms by (simp add: custom_sum_def)
next
  case (Some ds)
  have l2: "length ds = length df2" using to_datetime_series_length [OF Some] by simp
  have l1: "length ds = length df1" using l2 assms(1) by (metis length_map)
  have c1: "to_datetime_series td (map Date df1) = Some ds" using Some assms by simp
  show ?thesis
    by (simp add: custom_sum_converted [OF c1] custom_sum_converted [OF Some]
        filtered_df_selection Price_boolean_index Price_assign_Date [OF l1]
        Price_assign_Date [OF l2] assms(2) split: sum.splits)
qed

lemma assign_Date_fields:
  assumes "length ds = length df"
  shows "length (assign_Date df ds) = length df"
    and "map Vendor (assign_Date df ds) = map Vendor df"
    and "map Name (assign_Date df ds) = map Name df"
    and "map Quantity (assign_Date df ds) = map Quantity df"
    and "map Category (assign_Date df ds) = map Category df"
    and "map Payment_method (assign_Date df ds) = map Payment_method df"
  using assms unfolding assign_Date_def
  by (induction ds df rule: list_induct2) auto

lemma to_datetime_series_timestamps:
  "to_datetime_series td (map DTs ds) = Some ds"
  unfolding to_datetime_series_def
  by (induction ds) auto

lemma assign_Date_same:
  "map Date df = map DTs ds \<Longrightarrow> assign_Date df ds = df"
  unfolding assign_Date_def
proof (induction df arbitrary: ds)
  case Nil
  then show ?case by simp
next
  case (Cons r df)
  then show ?case by (cases ds) auto
qed

lemma all_timestamps:
  "\<forall>r\<in>set df. \<exists>d. Date r = DTs d \<Longrightarrow> \<exists>ds. map Date df = map DTs ds"
proof (induction df)
  case Nil
  then show ?case by simp
next
  case (Cons r df)
  then obtain d ds where "Date r = DTs d" "map Date df = map DTs ds" by auto
  then have "map Date (r # df) = map DTs (d # ds)" by simp
  then show ?case by blast
qed

lemma fst_custom_sum:
  "fst (custom_sum td tr df) =
     (case to_datetime_series td (map Date df) of None \<Rightarrow> df | Some ds \<Rightarrow> assign_Date df ds)"
  by (simp add: custom_sum_def Let_def split: option.splits)

lemma custom_sum_unrecognized:
  assumes "\<not> recognized tr"
  shows "snd (custom_sum td tr df) =
           (case to_datetime_series td (map Date df) of
              None \<Rightarrow> Inl DateParseError | Some ds \<Rightarrow> Inl InvalidTimeRange)"
  using assms
  by (auto simp: custom_sum_def Let_def recognized_def filtered_df_def split: option.splits)

lemma spec_selection_valid:
  "valid_time_range td tr \<Longrightarrow> \<exists>keep. spec_selection td tr = Inr keep"
  by (auto simp: valid_time_range_def spec_selection_def split: option.splits)

lemma set_kept_records: "set (kept_records keep df) \<subseteq> set df"
  by (auto simp: kept_records_def)

lemma days_in_month_le: "days_in_month y m \<le> 31"
  by (simp add: days_in_month_def)

lemma year_range_iff:
  assumes "valid_timestamp d" and "month d = 12 \<and> day d = 31 \<longrightarrow> time_ns d = 0"
  shows "(ts_le \<lparr>year = y, month = 1, day = 1, time_ns = 0\<rparr> d
          \<and> ts_le d \<lparr>year = y, month = 12, day = 31, time_ns = 0\<rparr>)
         = (year d = y)"
proof -
  have "day d \<le> 31"
    using assms(1) days_in_month_le [of "year d" "month d"] by (simp add: valid_timestamp_def)
  then show ?thesis
    using assms by (auto simp: ts_le_def valid_timestamp_def)
qed

lemma year_mask_eq_range_mask:
  assumes "\<forall>d\<in>set ds. valid_timestamp d \<and> (month d = 12 \<and> day d = 31 \<longrightarrow> time_ns d = 0)"
  shows "mask_and (map (\<lambda>d. ts_le \<lparr>year = y, month = 1, day = 1, time_ns = 0\<rparr> d) ds)
                  (map (\<lambda>d. ts_le d \<lparr>year = y, month = 12, day = 31, time_ns = 0\<rparr>) ds)
         = map (\<lambda>d. TInt (year d) = TInt y) ds"
  using assms by (simp add: mask_and_map year_range_iff)

lemma year_equals_range_valid:
  assumes "to_datetime_series td (map Date df) = Some ds"
    and "\<forall>d\<in>set ds. valid_timestamp d \<and> (month d = 12 \<and> day d = 31 \<longrightarrow> time_ns d = 0)"
    and "td s = Some \<lparr>year = y, month = 1, day = 1, time_ns = 0\<rparr>"
    and "td e = Some \<lparr>year = y, month = 12, day = 31, time_ns = 0\<rparr>"
  shows "custom_sum td [''year'' \<mapsto> TInt y] df =
         custom_sum td [''start_date'' \<mapsto> s, ''end_date'' \<mapsto> e] df"
  using assms(3,4)
  by (simp add: custom_sum_converted [OF assms(1)] filtered_df_def
      year_mask_eq_range_mask [OF assms(2)])

lemma filtered_df_kept:
  assumes "to_datetime_series td (map Date df) = Some ds"
  shows "filtered_df td tr ds (assign_Date df ds) =
           (case spec_selection td tr of
              Inl e \<Rightarrow> Inl e
            | Inr keep \<Rightarrow> Inr (kept_records keep (assign_Date df ds)))"
proof -
  have l: "length ds = length df" using to_datetime_series_length [OF assms] by simp
  show ?thesis
    by (simp add: filtered_df_selection boolean_index_keeps [OF l] split: sum.splits)
qed

lemma scenario_selection_2024:
  "spec_selection iso_to_datetime [''year'' \<mapsto> TInt 2024] = Inr (\<lambda>x. year x = 2024)"
  by (simp add: spec_selection_def)

lemma year_end_converts:
  "to_datetime_series iso_to_datetime (map Date year_end_ledger) =
     Some [\<lparr>year = 2024, month = 12, day = 31, time_ns = 36000000000000\<rparr>]"
  by (simp add: to_datetime_series_def year_end_ledger_def iso_clock_def iso_defs)

text \<open>The sum of an int64 column: numpy adds modulo \<open>2\<^sup>6\<^sup>4\<close>.\<close>

lemma sint_sum_list:
  "sint (sum_list (ws :: 'a::len word list)) =
     signed_take_bit (LENGTH('a) - 1) (sum_list (map sint ws))"
proof (induction ws)
  case Nil
  then show ?case by simp
next
  case (Cons w ws)
  have "sint (w + sum_list ws) = signed_take_bit (LENGTH('a) - 1) (sint w + sint (sum_list ws))"
    by (rule sint_word_ariths)
  also have "\<dots> = signed_take_bit (LENGTH('a) - 1) (sint w + sum_list (map sint ws))"
    unfolding Cons.IH
    by (metis signed_take_bit_add signed_take_bit_signed_take_bit min.idem)
  finally show ?case by simp
qed

lemma sint_sum_list_exact:
  assumes "0 \<le> sum_list (map sint (ws :: 64 word list))"
    and "sum_list (map sint ws) < 2 ^ 63"
  shows "sint (sum_list ws) = sum_list (map sint ws)"
  using assms
  by (simp add: sint_sum_list signed_take_bit_int_eq_self)

lemma kept_prices:
  assumes "length ds = length df" and "r \<in> set (kept_records keep (assign_Date df ds))"
  shows "Price r \<in> Price ` set df"
proof -
  have "r \<in> set (assign_Date df ds)" using assms(2) set_kept_records by fastforce
  then have "Price r \<in> set (map Price (assign_Date df ds))" by simp
  then show ?thesis by (simp add: Price_assign_Date [OF assms(1)])
qed

lemma small_int64_converts:
  "to_datetime_series iso_to_datetime (map Date small_int64_ledger) = Some scenario_dates"
  by (simp add: to_datetime_series_def small_int64_ledger_def scenario_dates_def iso_defs)

lemma int64_converts:
  "to_datetime_series iso_to_datetime (map Date int64_ledger) = Some scenario_dates"
  by (simp add: to_datetime_series_def int64_ledger_def scenario_dates_def iso_defs)

section \<open>The claims about custom\_sum\<close>

subsection \<open>C1: the priority chain\<close>

text \<open>
  Claim C1. For every time\_range and every ledger whose Date column converts,
  \<^verbatim>\<open>custom_sum\<close> picks its filter by the first test that succeeds, and returns the
  sum of Price over the records that the specification's filter keeps:
  with \<^verbatim>\<open>specific_date\<close> present, the records whose date equals that date, whatever other
  keys are present; otherwise with \<^verbatim>\<open>start_date\<close> and \<^verbatim>\<open>end_date\<close> both present, the
  records with start \<open>\<le>\<close> date \<open>\<le>\<close> end, both ends included; otherwise with \<^verbatim>\<open>month\<close> and
  \<^verbatim>\<open>year\<close> both present, the records of exactly that month and year; otherwise with
  \<^verbatim>\<open>year\<close> present, the records of exactly that year.
\<close>

theorem custom_sum_priority_chain:
  assumes conv: "to_datetime_series td (map Date df) = Some ds"
  shows "(\<forall>v d. tr ''specific_date'' = Some v \<and> td v = Some d \<longrightarrow>
            snd (custom_sum td tr df) = Inr (spec_aggregate (SpecificDate d) (assign_Date df ds)))
       \<and> (\<forall>s e a b. tr ''specific_date'' = None \<and> tr ''start_date'' = Some s \<and> tr ''end_date'' = Some e
              \<and> td s = Some a \<and> td e = Some b \<longrightarrow>
            snd (custom_sum td tr df) = Inr (spec_aggregate (DateRange a b) (assign_Date df ds)))
       \<and> (\<forall>m y. tr ''specific_date'' = None \<and> (tr ''start_date'' = None \<or> tr ''end_date'' = None)
              \<and> tr ''month'' = Some (TInt m) \<and> tr ''year'' = Some (TInt y) \<longrightarrow>
            snd (custom_sum td tr df) = Inr (spec_aggregate (MonthYear m y) (assign_Date df ds)))
       \<and> (\<forall>y. tr ''specific_date'' = None \<and> (tr ''start_date'' = None \<or> tr ''end_date'' = None)
              \<and> tr ''month'' = None \<and> tr ''year'' = Some (TInt y) \<longrightarrow>
            snd (custom_sum td tr df) = Inr (spec_aggregate (Year y) (assign_Date df ds)))"
proof -
  have len: "length ds = length df"
    using to_datetime_series_length [OF conv] by simp
  note cs = custom_sum_converted [OF conv]
  show ?thesis
  proof (intro conjI allI impI)
    fix v d
    assume "tr ''specific_date'' = Some v \<and> td v = Some d"
    then show "snd (custom_sum td tr df) = Inr (spec_aggregate (SpecificDate d) (assign_Date df ds))"
      by (simp add: cs filtered_df_SpecificDate [OF _ _ len] spec_aggregate_def)
  next
    fix s e a b
    assume "tr ''specific_date'' = None \<and> tr ''start_date'' = Some s \<and> tr ''end_date'' = Some e
              \<and> td s = Some a \<and> td e = Some b"
    then show "snd (custom_sum td tr df) = Inr (spec_aggregate (DateRange a b) (assign_Date df ds))"
      by (simp add: cs filtered_df_DateRange [OF _ _ _ _ _ len] spec_aggregate_def)
  next
    fix m y
    assume "tr ''specific_date'' = None \<and> (tr ''start_date'' = None \<or> tr ''end_date'' = None)
              \<and> tr ''month'' = Some (TInt m) \<and> tr ''year'' = Some (TInt y)"
    then show "snd (custom_sum td tr df) = Inr (spec_aggregate (MonthYear m y) (assign_Date df ds))"
      by (simp add: cs filtered_df_MonthYear [OF _ _ _ _ len] spec_aggregate_def)
  next
    fix y
    assume "tr ''specific_date'' = None \<and> (tr ''start_date'' = None \<or> tr ''end_date'' = None)
              \<and> tr ''month'' = None \<and> tr ''year'' = Some (TInt y)"
    then show "snd (custom_sum td tr df) = Inr (spec_aggregate (Year y) (assign_Date df ds))"
      by (simp add: cs filtered_df_Year [OF _ _ _ _ len] spec_aggregate_def)
  qed
qed

theorem custom_sum_priority_chain_witness:
  "snd (custom_sum iso_to_datetime
          [''specific_date'' \<mapsto> TStr ''2024-05-11'', ''year'' \<mapsto> TInt 2023] scenario_ledger)
     = Inr (spec_aggregate (SpecificDate \<lparr>year = 2024, month = 5, day = 11, time_ns = 0\<rparr>)
              (assign_Date scenario_ledger scenario_dates))
   \<and> snd (custom_sum iso_to_datetime
          [''start_date'' \<mapsto> TStr ''2024-05-12'', ''end_date'' \<mapsto> TStr ''2024-05-16'',
           ''month'' \<mapsto> TInt 4, ''year'' \<mapsto> TInt 2023] scenario_ledger)
     = Inr (spec_aggregate
              (DateRange \<lparr>year = 2024, month = 5, day = 12, time_ns = 0\<rparr> \<lparr>year = 2024, month = 5, day = 16, time_ns = 0\<rparr>)
              (assign_Date scenario_ledger scenario_dates))
   \<and> snd (custom_sum iso_to_datetime
          [''start_date'' \<mapsto> TStr ''2024-05-12'', ''month'' \<mapsto> TInt 5, ''year'' \<mapsto> TInt 2024]
          scenario_ledger)
     = Inr (spec_aggregate (MonthYear 5 2024) (assign_Date scenario_ledger scenario_dates))
   \<and> snd (custom_sum iso_to_datetime
          [''end_date'' \<mapsto> TStr ''2024-05-12'', ''year'' \<mapsto> TInt 2024] scenario_ledger)
     = Inr (spec_aggregate (Year 2024) (assign_Date scenario_ledger scenario_dates))
   \<and> spec_aggregate (SpecificDate \<lparr>year = 2024, month = 5, day = 11, time_ns = 0\<rparr>)
         (assign_Date scenario_ledger scenario_dates) = 49.90
   \<and> spec_aggregate
         (DateRange \<lparr>year = 2024, month = 5, day = 12, time_ns = 0\<rparr> \<lparr>year = 2024, month = 5, day = 16, time_ns = 0\<rparr>)
         (assign_Date scenario_ledger scenario_dates) = 22.73"
proof -
  note th = custom_sum_priority_chain [OF scenario_converts]
  have 1: "snd (custom_sum iso_to_datetime
          [''specific_date'' \<mapsto> TStr ''2024-05-11'', ''year'' \<mapsto> TInt 2023] scenario_ledger)
     = Inr (spec_aggregate (SpecificDate \<lparr>year = 2024, month = 5, day = 11, time_ns = 0\<rparr>)
              (assign_Date scenario_ledger scenario_dates))"
    using th [of "[''specific_date'' \<mapsto> TStr ''2024-05-11'', ''year'' \<mapsto> TInt 2023]"]
    by (simp add: iso_defs)
  have 2: "snd (custom_sum iso_to_datetime
          [''start_date'' \<mapsto> TStr ''2024-05-12'', ''end_date'' \<mapsto> TStr ''2024-05-16'',
           ''month'' \<mapsto> TInt 4, ''year'' \<mapsto> TInt 2023] scenario_ledger)
     = Inr (spec_aggregate
              (DateRange \<lparr>year = 2024, month = 5, day = 12, time_ns = 0\<rparr> \<lparr>year = 2024, month = 5, day = 16, time_ns = 0\<rparr>)
              (assign_Date scenario_ledger scenario_dates))"
    using th [of "[''start_date'' \<mapsto> TStr ''2024-05-12'', ''end_date'' \<mapsto> TStr ''2024-05-16'',
           ''month'' \<mapsto> TInt 4, ''year'' \<mapsto> TInt 2023]"]
    by (simp add: iso_defs)
  have 3: "snd (custom_sum iso_to_datetime
          [''start_date'' \<mapsto> TStr ''2024-05-12'', ''month'' \<mapsto> TInt 5, ''year'' \<mapsto> TInt 2024]
          scenario_ledger)
     = Inr (spec_aggregate (MonthYear 5 2024) (assign_Date scenario_ledger scenario_dates))"
    using th [of "[''start_date'' \<mapsto> TStr ''2024-05-12'', ''month'' \<mapsto> TInt 5,
           ''year'' \<mapsto> TInt 2024]"]
    by simp
  have 4: "snd (custom_sum iso_to_datetime
          [''end_date'' \<mapsto> TStr ''2024-05-12'', ''year'' \<mapsto> TInt 2024] scenario_ledger)
     = Inr (spec_aggregate (Year 2024) (assign_Date scenario_ledger scenario_dates))"
    using th [of "[''end_date'' \<mapsto> TStr ''2024-05-12'', ''year'' \<mapsto> TInt 2024]"]
    by simp
  have 5: "spec_aggregate (SpecificDate \<lparr>year = 2024, month = 5, day = 11, time_ns = 0\<rparr>)
         (assign_Date scenario_ledger scenario_dates) = 49.90"
    by (simp add: spec_aggregate_def assign_Date_def scenario_ledger_def scenario_dates_def)
  have 6: "spec_aggregate
         (DateRange \<lparr>year = 2024, month = 5, day = 12, time_ns = 0\<rparr> \<lparr>year = 2024, month = 5, day = 16, time_ns = 0\<rparr>)
         (assign_Date scenario_ledger scenario_dates) = 22.73"
    by (simp add: spec_aggregate_def assign_Date_def scenario_ledger_def scenario_dates_def
        ts_le_def)
  show ?thesis using 1 2 3 4 5 6 by (intro conjI)
qed

subsection \<open>C2: the sum is over Price alone\<close>

text \<open>
  Claim C2. The value \<^verbatim>\<open>custom_sum\<close> returns is the sum of the Price field over the
  filtered records only: on a ledger whose Date column converts, \<^verbatim>\<open>filtered_df\<close> holds
  exactly the records whose date the filter policy keeps, the Price fields are those of
  the input, and the value returned is the sum of the Price fields of these records
  (when the policy fails, the call fails the same way). Quantity is never multiplied in:
  rewriting the quantities of the ledger in any way changes neither the value returned
  nor the exception raised, so two records with the same price contribute the same
  amount whatever their quantities.
\<close>

theorem custom_sum_sums_price_only:
  "snd (custom_sum td tr (map (\<lambda>r. r\<lparr>Quantity := q r\<rparr>) df)) = snd (custom_sum td tr df)
   \<and> (\<forall>ds. to_datetime_series td (map Date df) = Some ds \<longrightarrow>
          map Price (assign_Date df ds) = map Price df
          \<and> (case spec_selection td tr of
                Inl e \<Rightarrow>
                  filtered_df td tr ds (assign_Date df ds) = Inl e
                  \<and> snd (custom_sum td tr df) = Inl e
              | Inr keep \<Rightarrow>
                  filtered_df td tr ds (assign_Date df ds)
                    = Inr (kept_records keep (assign_Date df ds))
                  \<and> snd (custom_sum td tr df)
                    = Inr (sum_list (map Price (kept_records keep (assign_Date df ds))))))"
proof (intro conjI allI impI)
  show "snd (custom_sum td tr (map (\<lambda>r. r\<lparr>Quantity := q r\<rparr>) df)) = snd (custom_sum td tr df)"
    by (rule custom_sum_by_prices [OF Date_Quantity_update Price_Quantity_update])
next
  fix ds assume conv: "to_datetime_series td (map Date df) = Some ds"
  then have "length ds = length df" using to_datetime_series_length by fastforce
  then show "map Price (assign_Date df ds) = map Price df" by (rule Price_assign_Date)
next
  fix ds assume conv: "to_datetime_series td (map Date df) = Some ds"
  show "case spec_selection td tr of
          Inl e \<Rightarrow>
            filtered_df td tr ds (assign_Date df ds) = Inl e \<and> snd (custom_sum td tr df) = Inl e
        | Inr keep \<Rightarrow>
            filtered_df td tr ds (assign_Date df ds) = Inr (kept_records keep (assign_Date df ds))
            \<and> snd (custom_sum td tr df)
              = Inr (sum_list (map Price (kept_records keep (assign_Date df ds))))"
    by (simp add: filtered_df_kept [OF conv] custom_sum_selection [OF conv] split: sum.splits)
qed

theorem custom_sum_sums_price_only_witness:
  "snd (custom_sum iso_to_datetime [''year'' \<mapsto> TInt 2024]
          (map (\<lambda>r. r\<lparr>Quantity := 7\<rparr>) scenario_ledger)) = Inr 72.63
   \<and> filtered_df iso_to_datetime [''year'' \<mapsto> TInt 2024] scenario_dates
         (assign_Date scenario_ledger scenario_dates)
       = Inr (kept_records (\<lambda>x. year x = 2024) (assign_Date scenario_ledger scenario_dates))
   \<and> snd (custom_sum iso_to_datetime [''year'' \<mapsto> TInt 2024] scenario_ledger)
       = Inr (sum_list (map Price
                (kept_records (\<lambda>x. year x = 2024) (assign_Date scenario_ledger scenario_dates))))"
proof -
  note th = custom_sum_sums_price_only
              [of iso_to_datetime "[''year'' \<mapsto> TInt 2024]" "\<lambda>r. 7" scenario_ledger]
  have e: "snd (custom_sum iso_to_datetime [''year'' \<mapsto> TInt 2024] scenario_ledger) = Inr 72.63"
    by (simp only: scenario_year_2024 snd_conv)
  have 1: "snd (custom_sum iso_to_datetime [''year'' \<mapsto> TInt 2024]
          (map (\<lambda>r. r\<lparr>Quantity := 7\<rparr>) scenario_ledger)) = Inr 72.63"
    using th [THEN conjunct1] e by simp
  have 2: "filtered_df iso_to_datetime [''year'' \<mapsto> TInt 2024] scenario_dates
         (assign_Date scenario_ledger scenario_dates)
       = Inr (kept_records (\<lambda>x. year x = 2024) (assign_Date scenario_ledger scenario_dates))
   \<and> snd (custom_sum iso_to_datetime [''year'' \<mapsto> TInt 2024] scenario_ledger)
       = Inr (sum_list (map Price
                (kept_records (\<lambda>x. year x = 2024) (assign_Date scenario_ledger scenario_dates))))"
    using th [THEN conjunct2, rule_format, OF scenario_converts, THEN conjunct2]
    by (simp only: scenario_selection_2024 sum.case)
  show ?thesis using 1 2 by (intro conjI) simp_all
qed

subsection \<open>C3: the effect on the ledger\<close>

text \<open>
  Claim C3, as amended. The claim that \<^verbatim>\<open>custom_sum\<close> leaves every field of the ledger
  as it was fails on the Date column: the first statement of the function assigns
  \<^verbatim>\<open>pd.to_datetime(expenses_df['Date'])\<close> to it, so text dates are Timestamps after the
  call. What holds: the call keeps the number and order of the records and every field
  other than Date; the Date column holds the converted dates afterwards; and the
  ledger is unchanged when the conversion raises or when the Date column held
  Timestamps already.
\<close>

theorem custom_sum_frame_effect:
  "length (fst (custom_sum td tr df)) = length df
   \<and> map Vendor (fst (custom_sum td tr df)) = map Vendor df
   \<and> map Name (fst (custom_sum td tr df)) = map Name df
   \<and> map Quantity (fst (custom_sum td tr df)) = map Quantity df
   \<and> map Price (fst (custom_sum td tr df)) = map Price df
   \<and> map Category (fst (custom_sum td tr df)) = map Category df
   \<and> map Payment_method (fst (custom_sum td tr df)) = map Payment_method df
   \<and> (\<forall>ds. to_datetime_series td (map Date df) = Some ds \<longrightarrow>
          map Date (fst (custom_sum td tr df)) = map DTs ds)
   \<and> (to_datetime_series td (map Date df) = None \<longrightarrow> fst (custom_sum td tr df) = df)
   \<and> ((\<forall>r\<in>set df. \<exists>d. Date r = DTs d) \<longrightarrow> fst (custom_sum td tr df) = df)"
proof (cases "to_datetime_series td (map Date df)")
  case None
  have "\<not> (\<forall>r\<in>set df. \<exists>d. Date r = DTs d)"
  proof
    assume "\<forall>r\<in>set df. \<exists>d. Date r = DTs d"
    then obtain ds where "map Date df = map DTs ds" using all_timestamps by blast
    then show False using None by (simp add: to_datetime_series_timestamps)
  qed
  then show ?thesis using None by (simp add: fst_custom_sum)
next
  case (Some ds)
  have l: "length ds = length df" using to_datetime_series_length [OF Some] by simp
  have same: "assign_Date df ds = df" if "\<forall>r\<in>set df. \<exists>d. Date r = DTs d"
  proof -
    from that obtain ds' where d: "map Date df = map DTs ds'" using all_timestamps by blast
    then have "ds' = ds" using Some by (simp add: to_datetime_series_timestamps)
    then show ?thesis using d assign_Date_same by blast
  qed
  show ?thesis
    using Some same
    by (simp add: fst_custom_sum assign_Date_fields [OF l] Price_assign_Date [OF l] col_Date_assign [OF l])
qed

theorem custom_sum_frame_effect_witness:
  "map Date (fst (custom_sum iso_to_datetime [''year'' \<mapsto> TInt 2024] scenario_ledger))
     = map DTs scenario_dates
   \<and> map Price (fst (custom_sum iso_to_datetime [''year'' \<mapsto> TInt 2024] scenario_ledger))
     = map Price scenario_ledger
   \<and> fst (custom_sum iso_to_datetime [''year'' \<mapsto> TInt 2024]
            (assign_Date scenario_ledger scenario_dates))
     = assign_Date scenario_ledger scenario_dates
   \<and> fst (custom_sum iso_to_datetime [''year'' \<mapsto> TInt 2024]
            (map (\<lambda>r. r\<lparr>Date := DStr ''yesterday''\<rparr>) scenario_ledger))
     = map (\<lambda>r. r\<lparr>Date := DStr ''yesterday''\<rparr>) scenario_ledger"
proof -
  have 1: "map Date (fst (custom_sum iso_to_datetime [''year'' \<mapsto> TInt 2024] scenario_ledger))
     = map DTs scenario_dates
   \<and> map Price (fst (custom_sum iso_to_datetime [''year'' \<mapsto> TInt 2024] scenario_ledger))
     = map Price scenario_ledger"
    using custom_sum_frame_effect [of iso_to_datetime "[''year'' \<mapsto> TInt 2024]" scenario_ledger]
    by (simp add: scenario_converts)
  have "\<forall>r\<in>set (assign_Date scenario_ledger scenario_dates). \<exists>d. Date r = DTs d"
    by (simp add: assign_Date_def scenario_ledger_def scenario_dates_def)
  then have 2: "fst (custom_sum iso_to_datetime [''year'' \<mapsto> TInt 2024]
            (assign_Date scenario_ledger scenario_dates))
     = assign_Date scenario_ledger scenario_dates"
    using custom_sum_frame_effect [of iso_to_datetime "[''year'' \<mapsto> TInt 2024]"
        "assign_Date scenario_ledger scenario_dates"]
    by blast
  have "to_datetime_series iso_to_datetime
          (map Date (map (\<lambda>r. r\<lparr>Date := DStr ''yesterday''\<rparr>) scenario_ledger)) = None"
    by (simp add: to_datetime_series_def scenario_ledger_def iso_date_def)
  then have 3: "fst (custom_sum iso_to_datetime [''year'' \<mapsto> TInt 2024]
            (map (\<lambda>r. r\<lparr>Date := DStr ''yesterday''\<rparr>) scenario_ledger))
     = map (\<lambda>r. r\<lparr>Date := DStr ''yesterday''\<rparr>) scenario_ledger"
    using custom_sum_frame_effect [of iso_to_datetime "[''year'' \<mapsto> TInt 2024]"
        "map (\<lambda>r. r\<lparr>Date := DStr ''yesterday''\<rparr>) scenario_ledger"]
    by blast
  show ?thesis using 1 2 3 by blast
qed

theorem custom_sum_frame_effect_counterexample:
  "map Date (fst (custom_sum iso_to_datetime [''year'' \<mapsto> TInt 2024] scenario_ledger))
     \<noteq> map Date scenario_ledger"
  unfolding scenario_year_2024
  by (simp add: assign_Date_def scenario_ledger_def scenario_dates_def)

subsection \<open>C5: a year and its date range\<close>

text \<open>
  Claim C5, as amended. The claim that the year \<open>y\<close> and the date range from \<open>y\<close>-01-01
  to \<open>y\<close>-12-31 give the same sum on every ledger whose dates lie within year \<open>y\<close> fails
  for a date on \<open>y\<close>-12-31 after midnight: the range ends at midnight of its last day
  (\<^verbatim>\<open>expenses_df['Date'] <= end_date\<close> compares Timestamps), the year filter keeps the
  whole day. What holds: for every year \<open>y\<close> and every ledger whose dates all lie
  within year \<open>y\<close> and none of which falls on \<open>y\<close>-12-31 after midnight, every ledger
  of plain calendar dates of year \<open>y\<close> in particular, \<^verbatim>\<open>custom_sum\<close> with
  \<^verbatim>\<open>{'year': y}\<close> and with that date range (\<open>s\<close> and \<open>e\<close> being values that
  \<^verbatim>\<open>pd.to_datetime\<close> reads as its two ends) return the same sum and leave the same
  ledger.
\<close>

theorem year_equals_full_date_range:
  assumes "to_datetime_series td (map Date df) = Some ds"
    and "\<forall>d\<in>set ds. valid_timestamp d \<and> year d = y
            \<and> (month d = 12 \<and> day d = 31 \<longrightarrow> time_ns d = 0)"
    and "td s = Some \<lparr>year = y, month = 1, day = 1, time_ns = 0\<rparr>"
    and "td e = Some \<lparr>year = y, month = 12, day = 31, time_ns = 0\<rparr>"
  shows "custom_sum td [''year'' \<mapsto> TInt y] df =
         custom_sum td [''start_date'' \<mapsto> s, ''end_date'' \<mapsto> e] df"
  using year_equals_range_valid [OF assms(1) _ assms(3,4)] assms(2) by blast

theorem year_equals_full_date_range_witness:
  "custom_sum iso_to_datetime [''year'' \<mapsto> TInt 2024] scenario_ledger =
   custom_sum iso_to_datetime
     [''start_date'' \<mapsto> TStr ''2024-01-01'', ''end_date'' \<mapsto> TStr ''2024-12-31''] scenario_ledger
   \<and> snd (custom_sum iso_to_datetime
       [''start_date'' \<mapsto> TStr ''2024-01-01'', ''end_date'' \<mapsto> TStr ''2024-12-31''] scenario_ledger)
     = Inr 72.63"
proof -
  have v: "\<forall>d\<in>set scenario_dates. valid_timestamp d \<and> year d = 2024
             \<and> (month d = 12 \<and> day d = 31 \<longrightarrow> time_ns d = 0)"
    by (simp add: scenario_dates_def valid_timestamp_def days_in_month_def)
  have s: "iso_to_datetime (TStr ''2024-01-01'')
             = Some \<lparr>year = 2024, month = 1, day = 1, time_ns = 0\<rparr>"
    and e: "iso_to_datetime (TStr ''2024-12-31'')
             = Some \<lparr>year = 2024, month = 12, day = 31, time_ns = 0\<rparr>"
    by (simp_all add: iso_defs)
  show ?thesis
    using year_equals_full_date_range [OF scenario_converts v s e] scenario_year_2024
    by (metis snd_conv)
qed

text \<open>
  The counterexample to C5 as stated: a purchase of 5 on 2024-12-31 at 10:00:00 lies
  within 2024; the year 2024 sums it, the date range 2024-01-01 to 2024-12-31 does not.
\<close>

theorem year_equals_full_date_range_counterexample:
  "to_datetime_series iso_to_datetime (map Date year_end_ledger) =
     Some [\<lparr>year = 2024, month = 12, day = 31, time_ns = 36000000000000\<rparr>]
   \<and> snd (custom_sum iso_to_datetime [''year'' \<mapsto> TInt 2024] year_end_ledger) = Inr 5
   \<and> snd (custom_sum iso_to_datetime
            [''start_date'' \<mapsto> TStr ''2024-01-01'', ''end_date'' \<mapsto> TStr ''2024-12-31'']
            year_end_ledger) = Inr 0"
proof -
  have s: "iso_to_datetime (TStr ''2024-01-01'')
             = Some \<lparr>year = 2024, month = 1, day = 1, time_ns = 0\<rparr>"
    and e: "iso_to_datetime (TStr ''2024-12-31'')
             = Some \<lparr>year = 2024, month = 12, day = 31, time_ns = 0\<rparr>"
    by (simp_all add: iso_defs)
  have 1: "snd (custom_sum iso_to_datetime [''year'' \<mapsto> TInt 2024] year_end_ledger) = Inr 5"
    unfolding custom_sum_converted [OF year_end_converts]
    by (simp add: filtered_df_def boolean_index_def assign_Date_def year_end_ledger_def)
  have 2: "snd (custom_sum iso_to_datetime
            [''start_date'' \<mapsto> TStr ''2024-01-01'', ''end_date'' \<mapsto> TStr ''2024-12-31'']
            year_end_ledger) = Inr 0"
    unfolding custom_sum_converted [OF year_end_converts]
    by (simp add: filtered_df_def s e boolean_index_def mask_and_def ts_le_def assign_Date_def
        year_end_ledger_def del: iso_to_datetime.simps)
  show ?thesis using year_end_converts 1 2 by (intro conjI)
qed

subsection \<open>C6 and C9: time ranges without a recognized key combination\<close>

text \<open>
  Claim C6. A time\_range in which no recognized key combination is populated, the
  empty one in particular, makes \<^verbatim>\<open>custom_sum\<close> fail and never return a value; on a
  ledger whose dates are readable the failure is InvalidTimeRange (the conversion of
  the Date column comes first and raises on an unreadable date).
\<close>

theorem custom_sum_invalid_time_range:
  "(\<not> recognized tr \<longrightarrow>
      (\<exists>e. snd (custom_sum td tr df) = Inl e)
      \<and> (to_datetime_series td (map Date df) \<noteq> None \<longrightarrow>
           snd (custom_sum td tr df) = Inl InvalidTimeRange))
   \<and> \<not> recognized Map.empty"
  by (auto simp: custom_sum_unrecognized recognized_def split: option.splits)

theorem custom_sum_invalid_time_range_witness:
  "snd (custom_sum iso_to_datetime Map.empty scenario_ledger) = Inl InvalidTimeRange"
  using custom_sum_invalid_time_range [of Map.empty iso_to_datetime scenario_ledger]
  by (simp add: scenario_converts)

text \<open>
  Claim C9. On a ledger whose dates are readable, a time\_range that populates some key
  but no recognized combination fails with InvalidTimeRange: \<^verbatim>\<open>start_date\<close> alone,
  \<^verbatim>\<open>end_date\<close> alone, \<^verbatim>\<open>month\<close> alone, and every non-empty time\_range that passes
  none of the four tests. There is no fallback to a broader filter and no sum 0.
\<close>

theorem custom_sum_partial_keys:
  assumes "to_datetime_series td (map Date df) = Some ds"
  shows "snd (custom_sum td [''start_date'' \<mapsto> v] df) = Inl InvalidTimeRange
       \<and> snd (custom_sum td [''end_date'' \<mapsto> v] df) = Inl InvalidTimeRange
       \<and> snd (custom_sum td [''month'' \<mapsto> v] df) = Inl InvalidTimeRange
       \<and> (\<forall>tr. dom tr \<noteq> {} \<and> \<not> recognized tr \<longrightarrow>
             snd (custom_sum td tr df) = Inl InvalidTimeRange)"
proof -
  have "\<not> recognized [''start_date'' \<mapsto> v]" "\<not> recognized [''end_date'' \<mapsto> v]"
    "\<not> recognized [''month'' \<mapsto> v]"
    by (simp_all add: recognized_def)
  then show ?thesis
    using assms by (simp add: custom_sum_unrecognized)
qed

theorem custom_sum_partial_keys_witness:
  "snd (custom_sum iso_to_datetime [''start_date'' \<mapsto> TStr ''2024-05-11''] scenario_ledger)
     = Inl InvalidTimeRange
   \<and> snd (custom_sum iso_to_datetime [''end_date'' \<mapsto> TStr ''2024-05-11''] scenario_ledger)
     = Inl InvalidTimeRange
   \<and> snd (custom_sum iso_to_datetime [''month'' \<mapsto> TStr ''2024-05-11''] scenario_ledger)
     = Inl InvalidTimeRange
   \<and> snd (custom_sum iso_to_datetime
            [''end_date'' \<mapsto> TStr ''2024-05-16'', ''month'' \<mapsto> TInt 5] scenario_ledger)
     = Inl InvalidTimeRange"
proof -
  note th = custom_sum_partial_keys [OF scenario_converts, of "TStr ''2024-05-11''"]
  have h: "dom [''end_date'' \<mapsto> TStr ''2024-05-16'', ''month'' \<mapsto> TInt 5] \<noteq> {}
        \<and> \<not> recognized [''end_date'' \<mapsto> TStr ''2024-05-16'', ''month'' \<mapsto> TInt 5]"
    by (simp add: recognized_def)
  have a: "snd (custom_sum iso_to_datetime [''start_date'' \<mapsto> TStr ''2024-05-11''] scenario_ledger)
     = Inl InvalidTimeRange"
    using th by (elim conjE)
  have b: "snd (custom_sum iso_to_datetime [''end_date'' \<mapsto> TStr ''2024-05-11''] scenario_ledger)
     = Inl InvalidTimeRange"
    using th by (elim conjE)
  have c: "snd (custom_sum iso_to_datetime [''month'' \<mapsto> TStr ''2024-05-11''] scenario_ledger)
     = Inl InvalidTimeRange"
    using th by (elim conjE)
  have g: "\<forall>tr. dom tr \<noteq> {} \<and> \<not> recognized tr \<longrightarrow>
             snd (custom_sum iso_to_datetime tr scenario_ledger) = Inl InvalidTimeRange"
    using th by (elim conjE)
  have d: "snd (custom_sum iso_to_datetime
            [''end_date'' \<mapsto> TStr ''2024-05-16'', ''month'' \<mapsto> TInt 5] scenario_ledger)
     = Inl InvalidTimeRange"
    using g [rule_format, OF h] .
  show ?thesis using a b c d by (intro conjI)
qed

subsection \<open>C7: the empty selection\<close>

text \<open>
  Claim C7, as amended. The claim that the sum is never negative when no price is
  negative fails on an int64 Price column, whose sum wraps around. What holds: for a
  valid time\_range and a ledger whose dates are readable, \<^verbatim>\<open>custom_sum\<close> does not
  fail, and returns exactly 0 when the filtered frame is empty; when no record has a
  negative price, the sum returned is not negative for a column of decimals, and for an
  int64 column it is the exact sum of the kept prices, and not negative, provided that
  sum is below \<open>2\<^sup>6\<^sup>3\<close>.
\<close>

theorem custom_sum_empty_subset:
  fixes df :: "'p::ordered_comm_monoid_add frame" and di :: "64 word frame"
  assumes "valid_time_range td tr"
  shows "(\<forall>ds. to_datetime_series td (map Date df) = Some ds \<longrightarrow>
            (\<exists>v fdf. filtered_df td tr ds (assign_Date df ds) = Inr fdf
               \<and> snd (custom_sum td tr df) = Inr v
               \<and> (fdf = [] \<longrightarrow> v = 0)
               \<and> ((\<forall>r\<in>set df. 0 \<le> Price r) \<longrightarrow> 0 \<le> v)))
       \<and> (\<forall>ds. to_datetime_series td (map Date di) = Some ds \<longrightarrow>
            (\<exists>v fdf. filtered_df td tr ds (assign_Date di ds) = Inr fdf
               \<and> snd (custom_sum td tr di) = Inr v
               \<and> (fdf = [] \<longrightarrow> v = 0)
               \<and> ((\<forall>r\<in>set di. 0 \<le> sint (Price r))
                    \<and> sum_list (map (\<lambda>r. sint (Price r)) fdf) < 2 ^ 63 \<longrightarrow>
                  sint v = sum_list (map (\<lambda>r. sint (Price r)) fdf) \<and> 0 \<le> sint v)))"
proof -
  obtain keep where keep: "spec_selection td tr = Inr keep"
    using spec_selection_valid [OF assms] by blast
  have A: "\<exists>v fdf. filtered_df td tr ds (assign_Date df ds) = Inr fdf
               \<and> snd (custom_sum td tr df) = Inr v
               \<and> (fdf = [] \<longrightarrow> v = 0)
               \<and> ((\<forall>r\<in>set df. 0 \<le> Price r) \<longrightarrow> 0 \<le> v)"
    if conv: "to_datetime_series td (map Date df) = Some ds" for ds
  proof -
    have l: "length ds = length df" using to_datetime_series_length [OF conv] by simp
    let ?fdf = "kept_records keep (assign_Date df ds)"
    have 1: "filtered_df td tr ds (assign_Date df ds) = Inr ?fdf"
      by (simp add: filtered_df_kept [OF conv] keep)
    have 2: "snd (custom_sum td tr df) = Inr (sum_list (map Price ?fdf))"
      by (simp add: custom_sum_selection [OF conv] keep)
    have 3: "0 \<le> sum_list (map Price ?fdf)" if "\<forall>r\<in>set df. 0 \<le> Price r"
    proof (rule sum_list_nonneg)
      fix x assume "x \<in> set (map Price ?fdf)"
      then have "x \<in> Price ` set df" using kept_prices [OF l] by auto
      then show "0 \<le> x" using that by auto
    qed
    show ?thesis using 1 2 3 by auto
  qed
  have B: "\<exists>v fdf. filtered_df td tr ds (assign_Date di ds) = Inr fdf
               \<and> snd (custom_sum td tr di) = Inr v
               \<and> (fdf = [] \<longrightarrow> v = 0)
               \<and> ((\<forall>r\<in>set di. 0 \<le> sint (Price r))
                    \<and> sum_list (map (\<lambda>r. sint (Price r)) fdf) < 2 ^ 63 \<longrightarrow>
                  sint v = sum_list (map (\<lambda>r. sint (Price r)) fdf) \<and> 0 \<le> sint v)"
    if conv: "to_datetime_series td (map Date di) = Some ds" for ds
  proof -
    have l: "length ds = length di" using to_datetime_series_length [OF conv] by simp
    let ?fdf = "kept_records keep (assign_Date di ds)"
    let ?S = "sum_list (map (\<lambda>r. sint (Price r)) ?fdf)"
    have 1: "filtered_df td tr ds (assign_Date di ds) = Inr ?fdf"
      by (simp add: filtered_df_kept [OF conv] keep)
    have 2: "snd (custom_sum td tr di) = Inr (sum_list (map Price ?fdf))"
      by (simp add: custom_sum_selection [OF conv] keep)
    have 3: "sint (sum_list (map Price ?fdf)) = ?S \<and> 0 \<le> sint (sum_list (map Price ?fdf))"
      if nn: "\<forall>r\<in>set di. 0 \<le> sint (Price r)" and small: "?S < 2 ^ 63"
    proof -
      have nn': "0 \<le> sum_list (map sint (map Price ?fdf))"
      proof (rule sum_list_nonneg)
        fix x assume "x \<in> set (map sint (map Price ?fdf))"
        then obtain r where "r \<in> set ?fdf" "x = sint (Price r)" by auto
        then show "0 \<le> x" using kept_prices [OF l] nn by fastforce
      qed
      have eq: "sum_list (map sint (map Price ?fdf)) = ?S" by (simp add: comp_def)
      have lt: "sum_list (map sint (map Price ?fdf)) < 2 ^ 63" using small by (simp only: eq)
      have "sint (sum_list (map Price ?fdf)) = sum_list (map sint (map Price ?fdf))"
        by (rule sint_sum_list_exact [OF nn' lt])
      then have h: "sint (sum_list (map Price ?fdf)) = ?S" using eq by (rule trans)
      have nnS: "0 \<le> ?S" using nn' unfolding eq .
      show ?thesis
      proof (intro conjI)
        show "sint (sum_list (map Price ?fdf)) = ?S" by (rule h)
        show "0 \<le> sint (sum_list (map Price ?fdf))" unfolding h by (rule nnS)
      qed
    qed
    show ?thesis using 1 2 3 by auto
  qed
  show ?thesis using A B by blast
qed

theorem custom_sum_empty_subset_witness:
  "valid_time_range iso_to_datetime [''year'' \<mapsto> TInt 2023]
   \<and> filtered_df iso_to_datetime [''year'' \<mapsto> TInt 2023] scenario_dates
        (assign_Date scenario_ledger scenario_dates) = Inr []
   \<and> snd (custom_sum iso_to_datetime [''year'' \<mapsto> TInt 2023] scenario_ledger) = Inr 0
   \<and> valid_time_range iso_to_datetime [''year'' \<mapsto> TInt 2024]
   \<and> (\<exists>v. snd (custom_sum iso_to_datetime [''year'' \<mapsto> TInt 2024] small_int64_ledger) = Inr v
          \<and> sint v = 73)"
proof -
  have v3: "valid_time_range iso_to_datetime [''year'' \<mapsto> TInt 2023]"
    and v4: "valid_time_range iso_to_datetime [''year'' \<mapsto> TInt 2024]"
    by (simp_all add: valid_time_range_def)
  have f: "filtered_df iso_to_datetime [''year'' \<mapsto> TInt 2023] scenario_dates
        (assign_Date scenario_ledger scenario_dates) = Inr []"
    by (simp add: filtered_df_def boolean_index_def scenario_dates_def assign_Date_def
        scenario_ledger_def)
  from custom_sum_empty_subset [OF v3, of scenario_ledger small_int64_ledger,
      THEN conjunct1, rule_format, OF scenario_converts]
  obtain x fdf where
    "filtered_df iso_to_datetime [''year'' \<mapsto> TInt 2023] scenario_dates
        (assign_Date scenario_ledger scenario_dates) = Inr fdf"
    "snd (custom_sum iso_to_datetime [''year'' \<mapsto> TInt 2023] scenario_ledger) = Inr x"
    "fdf = [] \<longrightarrow> x = 0"
    by blast
  then have z: "snd (custom_sum iso_to_datetime [''year'' \<mapsto> TInt 2023] scenario_ledger) = Inr 0"
    using f by simp
  have g: "filtered_df iso_to_datetime [''year'' \<mapsto> TInt 2024] scenario_dates
        (assign_Date small_int64_ledger scenario_dates)
           = Inr (assign_Date small_int64_ledger scenario_dates)"
    by (simp add: filtered_df_def boolean_index_def scenario_dates_def assign_Date_def
        small_int64_ledger_def)
  have nn: "\<forall>r\<in>set small_int64_ledger. 0 \<le> sint (Price r)"
    by (simp add: small_int64_ledger_def)
  have sm: "sum_list (map (\<lambda>r. sint (Price r)) (assign_Date small_int64_ledger scenario_dates)) = 73"
    by (simp add: small_int64_ledger_def assign_Date_def scenario_dates_def)
  from custom_sum_empty_subset [OF v4, of scenario_ledger small_int64_ledger,
      THEN conjunct2, rule_format, OF small_int64_converts]
  obtain w fdi where
    fdi: "filtered_df iso_to_datetime [''year'' \<mapsto> TInt 2024] scenario_dates
        (assign_Date small_int64_ledger scenario_dates) = Inr fdi"
    and w: "snd (custom_sum iso_to_datetime [''year'' \<mapsto> TInt 2024] small_int64_ledger) = Inr w"
    and e: "(\<forall>r\<in>set small_int64_ledger. 0 \<le> sint (Price r))
              \<and> sum_list (map (\<lambda>r. sint (Price r)) fdi) < 2 ^ 63 \<longrightarrow>
            sint w = sum_list (map (\<lambda>r. sint (Price r)) fdi) \<and> 0 \<le> sint w"
    by blast
  have "fdi = assign_Date small_int64_ledger scenario_dates" using fdi g by simp
  then have "sint w = 73" using e nn sm by simp
  then have i: "\<exists>v. snd (custom_sum iso_to_datetime [''year'' \<mapsto> TInt 2024] small_int64_ledger) = Inr v
          \<and> sint v = 73"
    using w by blast
  show ?thesis using v3 f z v4 i by (intro conjI)
qed

text \<open>
  The counterexample to C7 as stated: an int64 Price column holding \<open>2\<^sup>6\<^sup>2\<close> twice, both
  records of 2024; no price is negative and the year 2024 sums to \<open>- 2\<^sup>6\<^sup>3\<close>.
\<close>

theorem custom_sum_empty_subset_counterexample:
  "map (\<lambda>r. sint (Price r)) int64_ledger = [4611686018427387904, 4611686018427387904]
   \<and> map_sum id sint (snd (custom_sum iso_to_datetime [''year'' \<mapsto> TInt 2024] int64_ledger))
       = Inr (- 9223372036854775808)"
proof -
  have 1: "map (\<lambda>r. sint (Price r)) int64_ledger = [4611686018427387904, 4611686018427387904]"
    by (simp add: int64_ledger_def)
  have 2: "map_sum id sint (snd (custom_sum iso_to_datetime [''year'' \<mapsto> TInt 2024] int64_ledger))
       = Inr (- 9223372036854775808)"
    unfolding custom_sum_converted [OF int64_converts]
    by (simp add: filtered_df_def boolean_index_def assign_Date_def int64_ledger_def
        scenario_dates_def)
  show ?thesis using 1 2 by (intro conjI)
qed

subsection \<open>C8: the scenario of the specification\<close>

text \<open>
  Claim C8. For the ledger of two records dated 2024-05-11 with price 49.90 and
  2024-05-16 with price 22.73 (their other fields arbitrary), \<^verbatim>\<open>custom_sum\<close> returns
  exactly 72.63 for the date range 2024-05-11 to 2024-05-16, exactly 72.63 for the
  year 2024 and exactly 0 for the year 2023. Prices are exact decimals here.
\<close>

theorem scenario_sums:
  fixes v1 n1 c1 p1 v2 n2 c2 p2 :: string and q1 q2 :: int
  defines "ledger \<equiv>
          [\<lparr>Date = DStr ''2024-05-11'', Vendor = v1, Name = n1, Quantity = q1, Price = (49.90::rat),
             Category = c1, Payment_method = p1\<rparr>,
           \<lparr>Date = DStr ''2024-05-16'', Vendor = v2, Name = n2, Quantity = q2, Price = 22.73,
             Category = c2, Payment_method = p2\<rparr>]"
  shows "snd (custom_sum iso_to_datetime
          [''start_date'' \<mapsto> TStr ''2024-05-11'', ''end_date'' \<mapsto> TStr ''2024-05-16''] ledger)
           = Inr 72.63
   \<and> snd (custom_sum iso_to_datetime [''year'' \<mapsto> TInt 2024] ledger) = Inr 72.63
   \<and> snd (custom_sum iso_to_datetime [''year'' \<mapsto> TInt 2023] ledger) = Inr 0"
proof -
  have conv: "to_datetime_series iso_to_datetime (map Date ledger) = Some scenario_dates"
    by (simp add: ledger_def to_datetime_series_def scenario_dates_def iso_defs)
  have s: "iso_to_datetime (TStr ''2024-05-11'') = Some \<lparr>year = 2024, month = 5, day = 11, time_ns = 0\<rparr>"
    and e: "iso_to_datetime (TStr ''2024-05-16'') = Some \<lparr>year = 2024, month = 5, day = 16, time_ns = 0\<rparr>"
    by (simp_all add: iso_defs)
  have a: "assign_Date ledger scenario_dates =
          [\<lparr>Date = DTs \<lparr>year = 2024, month = 5, day = 11, time_ns = 0\<rparr>, Vendor = v1, Name = n1, Quantity = q1,
             Price = 49.90, Category = c1, Payment_method = p1\<rparr>,
           \<lparr>Date = DTs \<lparr>year = 2024, month = 5, day = 16, time_ns = 0\<rparr>, Vendor = v2, Name = n2, Quantity = q2,
             Price = 22.73, Category = c2, Payment_method = p2\<rparr>]"
    by (simp add: ledger_def assign_Date_def scenario_dates_def)
  have 1: "snd (custom_sum iso_to_datetime
          [''start_date'' \<mapsto> TStr ''2024-05-11'', ''end_date'' \<mapsto> TStr ''2024-05-16''] ledger)
           = Inr 72.63"
    unfolding custom_sum_converted [OF conv] a
    by (simp add: filtered_df_def s e boolean_index_def mask_and_def scenario_dates_def ts_le_def
        del: iso_to_datetime.simps)
  have 2: "snd (custom_sum iso_to_datetime [''year'' \<mapsto> TInt 2024] ledger) = Inr 72.63"
    unfolding custom_sum_converted [OF conv] a
    by (simp add: filtered_df_def boolean_index_def scenario_dates_def)
  have 3: "snd (custom_sum iso_to_datetime [''year'' \<mapsto> TInt 2023] ledger) = Inr 0"
    unfolding custom_sum_converted [OF conv] a
    by (simp add: filtered_df_def boolean_index_def scenario_dates_def)
  show ?thesis using 1 2 3 by (intro conjI)
qed

section \<open>The claim about get\_sum\<close>

lemma first_tool_call_Some:
  "choices r = c # cs \<Longrightarrow> tool_calls c = Some (t # ts) \<Longrightarrow> first_tool_call (Some r) = Inr t"
  by (simp add: first_tool_call_def)

text \<open>
  A reply without a tool call does not reach the test of \<^verbatim>\<open>tool_calls\<close>: the
  \<^verbatim>\<open>print\<close> before it subscripts \<^verbatim>\<open>tool_calls\<close> and raises.
\<close>

lemma get_sum_without_tool_call:
  assumes "choices r = c # cs"
  shows "tool_calls c = None \<Longrightarrow> get_sum json_loads td (Some r) df = ([], df, Inl TypeError)"
    and "tool_calls c = Some [] \<Longrightarrow> get_sum json_loads td (Some r) df = ([], df, Inl IndexError)"
  using assms by (simp_all add: get_sum_def first_tool_call_def)

lemma get_sum_text_reply:
  "get_sum sample_json_loads iso_to_datetime (Some text_reply) scenario_ledger =
     ([], scenario_ledger, Inl TypeError)"
  by (simp add: get_sum_def first_tool_call_def text_reply_def)

lemma get_sum_sum_reply:
  "get_sum sample_json_loads iso_to_datetime (Some sum_reply) scenario_ledger =
     ([''time_range: '' @ range_arguments], assign_Date scenario_ledger scenario_dates, Inr (Some 72.63))"
proof -
  have conv: "to_datetime_series iso_to_datetime (map Date scenario_ledger) = Some scenario_dates"
    by (rule scenario_converts)
  have s: "iso_to_datetime (TStr ''2024-05-11'') = Some \<lparr>year = 2024, month = 5, day = 11, time_ns = 0\<rparr>"
    and e: "iso_to_datetime (TStr ''2024-05-16'') = Some \<lparr>year = 2024, month = 5, day = 16, time_ns = 0\<rparr>"
    by (simp_all add: iso_defs)
  have c: "custom_sum iso_to_datetime
         [''start_date'' \<mapsto> TStr ''2024-05-11'', ''end_date'' \<mapsto> TStr ''2024-05-16''] scenario_ledger
       = (assign_Date scenario_ledger scenario_dates, Inr 72.63)"
    unfolding custom_sum_converted [OF conv]
    by (simp add: filtered_df_def s e del: iso_to_datetime.simps)
       (simp add: assign_Date_def scenario_ledger_def scenario_dates_def boolean_index_def
          mask_and_def ts_le_def)
  show ?thesis
    by (simp add: get_sum_def first_tool_call_def sum_reply_def sample_json_loads_def c)
qed

lemma get_sum_sum_reply_empty:
  "get_sum sample_json_loads iso_to_datetime (Some sum_reply) [] =
     ([''time_range: '' @ range_arguments], [], Inr (Some 0))"
  by (simp add: get_sum_def first_tool_call_def sum_reply_def sample_json_loads_def
      custom_sum_def to_datetime_series_def assign_Date_def filtered_df_def iso_defs
      boolean_index_def mask_and_def)

text \<open>
  Claim C4, as amended. \<^verbatim>\<open>get_sum\<close> returns no tagged result. For a reply whose first
  tool call is named \<^verbatim>\<open>custom_sum\<close> it prints the call's arguments, decodes them with
  \<^verbatim>\<open>json.loads\<close> and returns what \<^verbatim>\<open>custom_sum\<close> returns for them on the ledger (a
  number), or fails as \<^verbatim>\<open>json.loads\<close> or \<^verbatim>\<open>custom_sum\<close> fails; for a reply whose
  first tool call has another name it prints the arguments and a warning carrying the
  reply's message content, and returns \<^verbatim>\<open>None\<close>.
\<close>

theorem get_sum_dispatch:
  assumes "choices r = c # cs" and "tool_calls c = Some (t # ts)"
  shows "(function_name t = ''custom_sum'' \<longrightarrow>
            (\<forall>tr. json_loads (function_arguments t) = Inr tr \<longrightarrow>
               get_sum json_loads td (Some r) df =
                 ([''time_range: '' @ function_arguments t],
                  fst (custom_sum td tr df),
                  map_sum id Some (snd (custom_sum td tr df))))
          \<and> (\<forall>e. json_loads (function_arguments t) = Inl e \<longrightarrow>
               get_sum json_loads td (Some r) df =
                 ([''time_range: '' @ function_arguments t], df, Inl e)))
       \<and> (function_name t \<noteq> ''custom_sum'' \<longrightarrow>
            get_sum json_loads td (Some r) df =
              ([''time_range: '' @ function_arguments t, warning_line (content c)], df, Inr None))"
  using assms
  by (auto simp: get_sum_def first_tool_call_Some [OF assms] Let_def split: prod.splits sum.splits)

theorem get_sum_dispatch_witness:
  "get_sum sample_json_loads iso_to_datetime (Some sum_reply) scenario_ledger =
     ([''time_range: '' @ range_arguments],
      fst (custom_sum iso_to_datetime
             [''start_date'' \<mapsto> TStr ''2024-05-11'', ''end_date'' \<mapsto> TStr ''2024-05-16'']
             scenario_ledger),
      map_sum id Some
        (snd (custom_sum iso_to_datetime
                [''start_date'' \<mapsto> TStr ''2024-05-11'', ''end_date'' \<mapsto> TStr ''2024-05-16'']
                scenario_ledger)))
   \<and> get_sum sample_json_loads iso_to_datetime (Some receipt_reply) scenario_ledger =
     ([''time_range: '' @ receipt_arguments,
       warning_line None], scenario_ledger, Inr None)"
proof -
  have 1: "choices sum_reply =
     \<lparr>content = None, tool_calls = Some [\<lparr>function_name = ''custom_sum'',
        function_arguments = range_arguments\<rparr>]\<rparr> # []"
    by (simp add: sum_reply_def)
  have 2: "tool_calls \<lparr>content = None, tool_calls = Some [\<lparr>function_name = ''custom_sum'',
        function_arguments = range_arguments\<rparr>]\<rparr>
      = Some (\<lparr>function_name = ''custom_sum'', function_arguments = range_arguments\<rparr> # [])"
    by simp
  have a: "get_sum sample_json_loads iso_to_datetime (Some sum_reply) scenario_ledger =
     ([''time_range: '' @ range_arguments],
      fst (custom_sum iso_to_datetime
             [''start_date'' \<mapsto> TStr ''2024-05-11'', ''end_date'' \<mapsto> TStr ''2024-05-16'']
             scenario_ledger),
      map_sum id Some
        (snd (custom_sum iso_to_datetime
                [''start_date'' \<mapsto> TStr ''2024-05-11'', ''end_date'' \<mapsto> TStr ''2024-05-16'']
                scenario_ledger)))"
    using get_sum_dispatch [OF 1 2, of sample_json_loads iso_to_datetime scenario_ledger]
    by (simp add: sample_json_loads_def)
  have 3: "choices receipt_reply =
     \<lparr>content = None, tool_calls = Some [\<lparr>function_name = ''itemize_receipt'',
        function_arguments = receipt_arguments\<rparr>]\<rparr> # []"
    by (simp add: receipt_reply_def)
  have 4: "tool_calls \<lparr>content = None, tool_calls = Some [\<lparr>function_name = ''itemize_receipt'',
        function_arguments = receipt_arguments\<rparr>]\<rparr>
      = Some (\<lparr>function_name = ''itemize_receipt'',
        function_arguments = receipt_arguments\<rparr> # [])"
    by simp
  have b: "get_sum sample_json_loads iso_to_datetime (Some receipt_reply) scenario_ledger =
     ([''time_range: '' @ receipt_arguments,
       warning_line None], scenario_ledger, Inr None)"
    using get_sum_dispatch [OF 3 4, of sample_json_loads iso_to_datetime scenario_ledger]
    by simp
  show ?thesis using a b by (intro conjI)
qed

text \<open>
  The counterexample to C4 as stated: for one and the same reply, which invokes the
  tool \<^verbatim>\<open>custom_sum\<close> once, \<^verbatim>\<open>get_sum\<close> returns the number 72.63 on the scenario
  ledger and the number 0 on the empty ledger, not the tool's name and arguments.
\<close>

theorem get_sum_dispatch_counterexample:
  "snd (snd (get_sum sample_json_loads iso_to_datetime (Some sum_reply) scenario_ledger))
     = Inr (Some 72.63)
   \<and> snd (snd (get_sum sample_json_loads iso_to_datetime (Some sum_reply) []))
     = Inr (Some 0)"
  by (simp only: get_sum_sum_reply get_sum_sum_reply_empty snd_conv)

section \<open>The claim about the ledger-append cell\<close>

lemma new_row_dict:
  "new_row today (JObj kvs) (JObj ikvs) =
     (case map_of ikvs ''name'' of
        None \<Rightarrow> Inl (KeyError ''name'')
      | Some n \<Rightarrow>
          Inr [(''Date'', case map_of kvs ''date'' of None \<Rightarrow> JStr today | Some v \<Rightarrow> v),
               (''Vendor'', case map_of kvs ''vendor'' of None \<Rightarrow> JStr '''' | Some v \<Rightarrow> v),
               (''Name'', n),
               (''Quantity'', case map_of ikvs ''quantity'' of None \<Rightarrow> JInt 1 | Some v \<Rightarrow> v),
               (''Price'', case map_of ikvs ''price'' of None \<Rightarrow> JInt 0 | Some v \<Rightarrow> v),
               (''Category'',
                  case map_of ikvs ''category'' of None \<Rightarrow> JStr ''Uncategorized'' | Some v \<Rightarrow> v),
               (''Payment method'',
                  case map_of kvs ''payment_method'' of None \<Rightarrow> JStr ''Unknown'' | Some v \<Rightarrow> v)])"
  by (simp add: new_row_def bind_sum_def subscript_def dict_get_def split: option.splits)

lemma new_row_needs_name:
  "new_row today receipt_data item = Inr r \<Longrightarrow>
   \<exists>ikvs n. item = JObj ikvs \<and> map_of ikvs ''name'' = Some n"
  by (auto simp: new_row_def bind_sum_def subscript_def split: json.splits option.splits sum.splits)

lemma new_rows_loop_length:
  "new_rows_loop today rd items acc = Inr rows \<Longrightarrow> length rows = length acc + length items"
proof (induction items arbitrary: acc)
  case Nil
  then show ?case by simp
next
  case (Cons item items)
  then show ?case by (auto split: sum.splits)
qed

lemma new_rows_loop_named:
  assumes "\<forall>i\<in>set items. \<exists>ikvs n. i = JObj ikvs \<and> map_of ikvs ''name'' = Some n"
  shows "\<exists>rows. new_rows_loop today (JObj kvs) items acc = Inr rows"
  using assms
proof (induction items arbitrary: acc)
  case Nil
  then show ?case by simp
next
  case (Cons item items)
  then obtain ikvs n where "item = JObj ikvs" "map_of ikvs ''name'' = Some n" by auto
  then have "\<exists>r. new_row today (JObj kvs) item = Inr r" by (simp add: new_row_dict)
  then show ?case using Cons by auto
qed

lemma append_receipt_one_row_per_item:
  assumes "map_of kvs ''items'' = Some (JArr items)"
    and "\<forall>i\<in>set items. \<exists>ikvs n. i = JObj ikvs \<and> map_of ikvs ''name'' = Some n"
  shows "\<exists>rows. append_receipt today (JObj kvs) ledger = Inr (ledger @ rows)
           \<and> length rows = length items"
proof -
  obtain rows where r: "new_rows_loop today (JObj kvs) items [] = Inr rows"
    using new_rows_loop_named [OF assms(2)] by blast
  then have "length rows = length items" using new_rows_loop_length by fastforce
  then show ?thesis using r assms(1)
    by (auto simp: append_receipt_def bind_sum_def subscript_def py_iter_def)
qed

lemma defaults_outside_enums:
  "''Uncategorized'' \<notin> set category_enum \<and> ''Unknown'' \<notin> set payment_method_enum"
  by (simp add: category_enum_def payment_method_enum_def)

lemma append_receipt_defaults:
  "append_receipt ''2024-06-01'' (JObj [(''items'', JArr [JObj [(''name'', JStr ''tea'')]])]) []
   = Inr [[(''Date'', JStr ''2024-06-01''), (''Vendor'', JStr ''''), (''Name'', JStr ''tea''),
           (''Quantity'', JInt 1), (''Price'', JInt 0), (''Category'', JStr ''Uncategorized''),
           (''Payment method'', JStr ''Unknown'')]]"
  by (simp add: append_receipt_def bind_sum_def subscript_def py_iter_def new_row_def dict_get_def)

text \<open>
  Claim C10: one row per item, an absent field filled with its default, the item name
  with the empty string. The cell departs from it for the item name: the \<^verbatim>\<open>print\<close>
  at the head of the loop reads \<^verbatim>\<open>item['name']\<close>, so an item without a name raises
  \<^verbatim>\<open>KeyError\<close> before \<^verbatim>\<open>item.get("name", "")\<close> is reached, and no row is built. The
  cell at such a payload:
\<close>

theorem append_receipt_item_without_name:
  "append_receipt ''2024-06-01''
     (JObj [(''vendor'', JStr ''Corner Deli''), (''date'', JStr ''2024-05-16''),
            (''items'', JArr [JObj [(''price'', JFloat 22.73), (''quantity'', JInt 3)]]),
            (''payment_method'', JStr ''cash'')]) []
   = Inl (KeyError ''name'')"
  by (simp add: append_receipt_def bind_sum_def subscript_def py_iter_def new_row_def)

end
